theory Spec2Isabelle
  imports Main "HOL-Library.Word"
begin

unbundle bit_operations_syntax

section \<open>Data model of the logger (log.hpp)\<close>

text \<open>
  A narrow string (\<open>char*\<close>) is a \<open>string\<close>; a wide string (\<open>wchar_t*\<close>,
  \<open>std::wstring\<close>) is a list of code units, each a natural number. A C string is
  the list of its characters before the terminating null. \<open>L\<close> is the wide literal
  \<open>L"..."\<close> of an ASCII text.
\<close>

type_synonym wchar_t = nat
type_synonym wstring = "wchar_t list"

definition L :: "string \<Rightarrow> wstring" where
  "L s = map of_char s"

text \<open>The enumerations, with the integer value of each enumerator.\<close>

datatype LOGLEVEL =
  LOG_LEVEL_NONE | LOG_LEVEL_ERROR | LOG_LEVEL_WARNING | LOG_LEVEL_DEBUG | LOG_LEVEL_INFO

fun LOGLEVEL_val :: "LOGLEVEL \<Rightarrow> nat" where
  "LOGLEVEL_val LOG_LEVEL_NONE = 0"
| "LOGLEVEL_val LOG_LEVEL_ERROR = 1"
| "LOGLEVEL_val LOG_LEVEL_WARNING = 2"
| "LOGLEVEL_val LOG_LEVEL_DEBUG = 3"
| "LOGLEVEL_val LOG_LEVEL_INFO = 4"

datatype LOGTARGET =
  LOG_TARGET_NONE | LOG_TARGET_CONSOLE | LOG_TARGET_FILE | LOG_TARGET_CONSOLE_AND_FILE

fun LOGTARGET_val :: "LOGTARGET \<Rightarrow> 32 word" where
  "LOGTARGET_val LOG_TARGET_NONE = 0"
| "LOGTARGET_val LOG_TARGET_CONSOLE = 1"
| "LOGTARGET_val LOG_TARGET_FILE = 2"
| "LOGTARGET_val LOG_TARGET_CONSOLE_AND_FILE = 3"

text \<open>
  \<open>LOGLEVEL_WSTRING\<close>: the \<open>unordered_map\<close> from a level to its display name. It has
  no entry for \<open>LOG_LEVEL_NONE\<close>.
\<close>

fun LOGLEVEL_WSTRING :: "LOGLEVEL \<Rightarrow> wstring option" where
  "LOGLEVEL_WSTRING LOG_LEVEL_NONE = None"
| "LOGLEVEL_WSTRING LOG_LEVEL_ERROR = Some (L ''ERROR'')"
| "LOGLEVEL_WSTRING LOG_LEVEL_WARNING = Some (L ''WARNING'')"
| "LOGLEVEL_WSTRING LOG_LEVEL_DEBUG = Some (L ''DEBUG'')"
| "LOGLEVEL_WSTRING LOG_LEVEL_INFO = Some (L ''INFO'')"

text \<open>
  The file system as the two streams of the logger see it. A path names no file, a file
  that no stream can open, or a regular file with its text. A \<open>wofstream\<close> opened with
  \<open>ios::app\<close> creates a file that is not there; a \<open>wifstream\<close> does not. The code
  conversion of the wide streams is taken as lossless, so a file holds the wide text
  written to it.
\<close>

datatype file_node = No_file | Unopenable | Regular wstring

type_synonym file_system = "wstring \<Rightarrow> file_node"

text \<open>
  The static members of class \<open>Log\<close>, followed by the part of the process environment
  that the logger changes: the text written to \<open>std::wcout\<close>, the file system, the
  locale set by \<open>setlocale\<close>. \<open>m_Log\<close> is the shared pointer: \<open>None\<close> for
  \<open>nullptr\<close>, \<open>Some a\<close> for the \<open>a\<close>-th \<open>Log\<close> object constructed;
  \<open>Log_objects\<close> counts the objects constructed by \<open>new Log()\<close>. \<open>Init_runs\<close>
  counts the executions of the body of \<open>Log::Init\<close>; it is instrumentation and no
  variable of the source. The mutex \<open>m_LogMutex\<close> has no sequential effect and is left
  out.
\<close>

record log_state =
  m_Log :: "nat option"
  m_wstrLogBuffer :: wstring
  m_wstrLogFile :: wstring
  m_LogLevel :: LOGLEVEL
  m_LogTarget :: LOGTARGET
  m_ResourceFlag :: bool
  wcout :: wstring
  files :: file_system
  c_locale :: string
  Log_objects :: nat
  Init_runs :: nat

section \<open>The output dispatcher\<close>

text \<open>
  \<open>wFileOutPut.open(path, std::ios::app); wFileOutPut << buffer; wFileOutPut.close()\<close>.
  The result of \<open>open\<close> is not tested: on a stream that is not open the insertion
  writes nothing.
\<close>

definition wofstream_append :: "wstring \<Rightarrow> wstring \<Rightarrow> file_system \<Rightarrow> file_system" where
  "wofstream_append path buf fs =
     (case fs path of
        Unopenable \<Rightarrow> fs
      | No_file \<Rightarrow> fs(path := Regular buf)
      | Regular old \<Rightarrow> fs(path := Regular (old @ buf)))"

definition getLogTarget :: "log_state \<Rightarrow> LOGTARGET" where
  "getLogTarget s = m_LogTarget s"

text \<open>\<open>target & LOG_TARGET_CONSOLE\<close> as a condition: the bitwise AND is not zero.\<close>

definition target_and :: "LOGTARGET \<Rightarrow> LOGTARGET \<Rightarrow> bool" where
  "target_and t m = (LOGTARGET_val t AND LOGTARGET_val m \<noteq> 0)"

definition outputToTarget :: "log_state \<Rightarrow> log_state" where
  "outputToTarget s =
     (let target = getLogTarget s;
          s1 = (if target_and target LOG_TARGET_CONSOLE
                then s\<lparr>wcout := wcout s @ m_wstrLogBuffer s\<rparr>
                else s);
          s2 = (if target_and target LOG_TARGET_FILE
                then s1\<lparr>files := wofstream_append (m_wstrLogFile s1) (m_wstrLogBuffer s1) (files s1)\<rparr>
                else s1)
      in s2)"

section \<open>Initialisation and the singleton accessor\<close>

definition setLogLevel :: "LOGLEVEL \<Rightarrow> log_state \<Rightarrow> log_state" where
  "setLogLevel lvl s = s\<lparr>m_LogLevel := lvl\<rparr>"

definition setLogTarget :: "LOGTARGET \<Rightarrow> log_state \<Rightarrow> log_state" where
  "setLogTarget tgt s = s\<lparr>m_LogTarget := tgt\<rparr>"

definition setLogFile :: "wstring \<Rightarrow> log_state \<Rightarrow> log_state" where
  "setLogFile path s = s\<lparr>m_wstrLogFile := path\<rparr>"

text \<open>
  \<open>Log::Init\<close>: constructs the object when the pointer is null, then runs the three
  setters and \<open>setlocale(LC_ALL, "chs")\<close> (taken to succeed).
\<close>

definition Init :: "LOGLEVEL \<Rightarrow> LOGTARGET \<Rightarrow> wstring \<Rightarrow> log_state \<Rightarrow> log_state" where
  "Init lvl tgt path s =
     (let s1 = (if m_Log s = None
                then s\<lparr>m_Log := Some (Log_objects s), Log_objects := Suc (Log_objects s)\<rparr>
                else s);
          s2 = setLogLevel lvl s1;
          s3 = setLogTarget tgt s2;
          s4 = setLogFile path s3
      in s4\<lparr>c_locale := ''chs'', Init_runs := Suc (Init_runs s4)\<rparr>)"

text \<open>
  \<open>Log::Instance\<close>: \<open>std::call_once(m_ResourceFlag, Init, m_LogLevel, m_LogTarget,
  m_wstrLogFile)\<close>, then \<open>return m_Log\<close>. \<open>call_once\<close> runs the call when the flag is
  not set and sets the flag; the arguments are the static members as they are at the call.
\<close>

definition Instance :: "log_state \<Rightarrow> nat option \<times> log_state" where
  "Instance s =
     (let s' = (if m_ResourceFlag s then s
                else (Init (m_LogLevel s) (m_LogTarget s) (m_wstrLogFile s) s)
                       \<lparr>m_ResourceFlag := True\<rparr>)
      in (m_Log s', s'))"

text \<open>A sequence of \<open>n\<close> calls of \<open>Instance\<close>: the pointers returned, and the last state.\<close>

fun Instance_calls :: "nat \<Rightarrow> log_state \<Rightarrow> nat option list \<times> log_state" where
  "Instance_calls 0 s = ([], s)"
| "Instance_calls (Suc n) s =
     (let (p, s1) = Instance s; (ps, s2) = Instance_calls n s1 in (p # ps, s2))"

text \<open>
  The state set up by the initialisers of the static members (log.cpp), in a process
  whose console holds \<open>out\<close>, whose files are \<open>fs\<close> and whose locale is \<open>loc\<close>.
  \<open>m_wstrLogBuffer { 0 }\<close> is the string of one null character.
\<close>

definition initial_state :: "wstring \<Rightarrow> file_system \<Rightarrow> string \<Rightarrow> log_state" where
  "initial_state out fs loc =
     \<lparr>m_Log = None, m_wstrLogBuffer = [0], m_wstrLogFile = L ''./Log.txt'',
      m_LogLevel = LOG_LEVEL_NONE, m_LogTarget = LOG_TARGET_NONE, m_ResourceFlag = False,
      wcout = out, files = fs, c_locale = loc, Log_objects = 0, Init_runs = 0\<rparr>"

section \<open>Formatting\<close>

text \<open>The conversion \<open>%d\<close> of \<open>printf\<close>: a decimal numeral, with a minus sign below zero.\<close>

function dec_nat :: "nat \<Rightarrow> string" where
  "dec_nat n =
     (if n < 10 then [char_of (48 + n)]
      else dec_nat (n div 10) @ [char_of (48 + n mod 10)])"
  by pat_completeness auto
termination
  by (relation "measure id") auto

declare dec_nat.simps [simp del]

definition dec_int :: "int \<Rightarrow> string" where
  "dec_int i = (if i < 0 then CHR ''-'' # dec_nat (nat (- i)) else dec_nat (nat i))"

text \<open>\<open>%02d\<close>: padded with zeros after the sign to a width of two.\<close>

definition zero_pad :: "nat \<Rightarrow> string \<Rightarrow> string" where
  "zero_pad w d = replicate (w - length d) CHR ''0'' @ d"

definition dec02 :: "int \<Rightarrow> string" where
  "dec02 i =
     (if i < 0 then CHR ''-'' # zero_pad 1 (dec_nat (nat (- i)))
      else zero_pad 2 (dec_nat (nat i)))"

text \<open>\<open>%-5d\<close>, \<open>%-4d\<close>: left-justified, padded with spaces on the right.\<close>

definition left_justify :: "nat \<Rightarrow> wstring \<Rightarrow> wstring" where
  "left_justify w x = x @ replicate (w - length x) (of_char CHR '' '')"

definition wdec :: "int \<Rightarrow> wstring" where
  "wdec i = L (dec_int i)"

text \<open>
  \<open>getCurrentLocalTime\<close> (log.hpp), from the broken-down local time that
  \<open>localtime\<close> returns. The fields of \<open>struct tm\<close> are 32-bit integers, and the
  sums \<open>tm_year + 1900\<close> and \<open>tm_mon + 1\<close> are taken in 32 bits (they wrap around).
  \<open>snprintf\<close> with size 20 keeps at most 19 characters.
\<close>

record tm =
  tm_year :: "32 word"
  tm_mon :: "32 word"
  tm_mday :: "32 word"
  tm_hour :: "32 word"
  tm_min :: "32 word"
  tm_sec :: "32 word"

definition getCurrentLocalTime :: "tm \<Rightarrow> string" where
  "getCurrentLocalTime tmNow =
     take 19 (dec_int (sint (tm_year tmNow + 1900)) @ ''-'' @
              dec02 (sint (tm_mon tmNow + 1)) @ ''-'' @
              dec02 (sint (tm_mday tmNow)) @ '' '' @ dec02 (sint (tm_hour tmNow)) @ '':'' @
              dec02 (sint (tm_min tmNow)) @ '':'' @ dec02 (sint (tm_sec tmNow)))"

text \<open>
  The variadic arguments of \<open>writeLog\<close>.
\<close>

datatype va_arg = Arg_int "32 word" | Arg_wstr wstring

text \<open>
  What a call of \<open>writeLog\<close> takes from its platform:
  \<^item> the narrow-to-wide conversion \<open>StrToWStr\<close>, a code-page conversion of the
    operating system: \<open>StrToWStr p src\<close> is the wide string that the call
    \<open>StrToWStr(src, dst)\<close> leaves in \<open>dst\<close>;
  \<^item> the local time, the process identifier (a 32-bit \<open>int\<close>) and the thread
    identifier (\<open>gettid\<close> returns an unsigned 32-bit \<open>DWORD\<close>, which \<open>%d\<close> prints
    as a signed value);
  \<^item> \<open>sizeof_pointer\<close>, the value of \<open>sizeof _Format\<close> for the \<open>const char*\<close>
    parameter: 8 on a 64-bit build, 4 on a 32-bit build;
  \<^item> the C library's \<open>vswprintf\<close>: \<open>vswprintf p n fmt args\<close> is the string that
    \<open>vswprintf(buf, n, fmt, args)\<close> leaves in \<open>buf\<close>, and \<open>None\<close> where the behaviour
    of the library function is undefined (arguments that do not match the directives).
\<close>

record platform =
  StrToWStr :: "string \<Rightarrow> wstring"
  localtime_now :: tm
  getpid :: "32 word"
  gettid :: "32 word"
  sizeof_pointer :: nat
  vswprintf :: "nat \<Rightarrow> wstring \<Rightarrow> va_arg list \<Rightarrow> wstring option"

text \<open>
  \<open>StrToWStr\<close> is not told the length of its destination. Both definitions of the
  source (log.cpp) write the converted characters and then the terminating null, so the
  call writes one element more than the converted string is long. It stays within a
  destination of \<open>n\<close> elements when:
\<close>

definition StrToWStr_fits :: "platform \<Rightarrow> string \<Rightarrow> nat \<Rightarrow> bool" where
  "StrToWStr_fits p src n = (length (StrToWStr p src) + 1 \<le> n)"

text \<open>
  The metadata block:
  \<open>swprintf(logInfo, 100, L" [PID : %-5d] [TID : %-5d] [%-ls] [%-ls : %-4d] ", getpid(),
  gettid(), _FileName, _Function, _LineNumber)\<close>. \<open>swprintf\<close> writes into an array of
  100 wide characters: at most 99 characters and the terminating null. The line number is
  an unsigned 32-bit integer, printed by \<open>%d\<close> as a signed value.
\<close>

definition logInfo :: "platform \<Rightarrow> wstring \<Rightarrow> wstring \<Rightarrow> 32 word \<Rightarrow> wstring" where
  "logInfo p FileName Function LineNumber =
     take 99 (L '' [PID : '' @ left_justify 5 (wdec (sint (getpid p))) @
              L ''] [TID : '' @ left_justify 5 (wdec (sint (gettid p))) @
              L ''] ['' @ FileName @
              L ''] ['' @ Function @ L '' : '' @ left_justify 4 (wdec (sint LineNumber)) @
              L ''] '')"

section \<open>The logger core: writeLog\<close>

text \<open>
  A call returns, or throws (\<open>unordered_map::at\<close> throws \<open>std::out_of_range\<close> for a
  key that is not in the map; the state is the one at the throw), or its behaviour is
  undefined: \<open>StrToWStr\<close> writes past the end of its destination array, or
  \<open>vswprintf\<close> is called with arguments on which it is undefined. An undefined call
  has no state.
\<close>

datatype exception = out_of_range

datatype outcome = Returns log_state | Throws exception log_state | Undefined

text \<open>\<open>m_wstrLogBuffer += w\<close>.\<close>

definition buffer_add :: "wstring \<Rightarrow> log_state \<Rightarrow> log_state" where
  "buffer_add w s = s\<lparr>m_wstrLogBuffer := m_wstrLogBuffer s @ w\<rparr>"

text \<open>
  \<open>Log::writeLog\<close>, statement by statement. The two variable-length arrays have the
  lengths the source gives them: \<open>wchar_t wTimeBuffer[strlen(timeBuffer)]\<close> and
  \<open>wchar_t Format[nLen]\<close> with \<open>nLen = sizeof _Format\<close>; a call of \<open>StrToWStr\<close>
  that does not fit its array makes the call of \<open>writeLog\<close> undefined. \<open>logInfo\<close>
  and \<open>logInfo2\<close> are filled by \<open>swprintf\<close> and \<open>vswprintf\<close>, which are given
  the lengths 100 and 256 and keep to them. The second
  \<open>LOGLEVEL_WSTRING.at(_LogLevel)\<close>, for the closing banner, looks up the key that the
  first has found: in a call that is defined up to there it gives the same name.
\<close>

definition writeLog ::
  "platform \<Rightarrow> LOGLEVEL \<Rightarrow> wstring \<Rightarrow> wstring \<Rightarrow> 32 word \<Rightarrow> string \<Rightarrow> va_arg list \<Rightarrow>
   log_state \<Rightarrow> outcome" where
  "writeLog p LogLevel FileName Function LineNumber Format args s =
     (if LOGLEVEL_val LogLevel > LOGLEVEL_val (m_LogLevel s) then Returns s
      else
        let s1 = (if length (m_wstrLogBuffer s) \<noteq> 0 then s\<lparr>m_wstrLogBuffer := []\<rparr> else s);
            s2 = buffer_add (L ''\<newline>'') s1;
            s3 = buffer_add (replicate 60 (of_char CHR ''*'')) s2;
            s4 = buffer_add (L '' '') s3
        in (case LOGLEVEL_WSTRING LogLevel of
              None \<Rightarrow> Throws out_of_range s4
            | Some name \<Rightarrow>
                let s5 = buffer_add name s4;
                    s6 = buffer_add (L '' '') s5;
                    s7 = buffer_add (replicate 60 (of_char CHR ''*'')) s6;
                    s8 = buffer_add (L ''\<newline>'') s7;
                    timeBuffer = getCurrentLocalTime (localtime_now p)
                in if \<not> StrToWStr_fits p timeBuffer (length timeBuffer) then Undefined
                   else
                     let wTimeBuffer = StrToWStr p timeBuffer;
                         s9 = buffer_add wTimeBuffer s8;
                         s10 = buffer_add (logInfo p FileName Function LineNumber) s9;
                         nLen = sizeof_pointer p
                     in if \<not> StrToWStr_fits p Format nLen then Undefined
                        else
                          (case vswprintf p 256 (StrToWStr p Format) args of
                             None \<Rightarrow> Undefined
                           | Some logInfo2 \<Rightarrow>
                               let s11 = buffer_add logInfo2 s10;
                                   s12 = buffer_add (L ''\<newline>'') s11;
                                   s13 = buffer_add (replicate 60 (of_char CHR ''*'')) s12;
                                   s14 = buffer_add (L '' '') s13;
                                   s15 = buffer_add name s14;
                                   s16 = buffer_add (L '' '') s15;
                                   s17 = buffer_add (replicate 60 (of_char CHR ''*'')) s16;
                                   s18 = buffer_add (L ''\<newline>'') s17
                               in Returns (outputToTarget s18))))"

section \<open>The file reader: getLogFromFile\<close>

text \<open>
  A \<open>wifstream\<close>: the text not yet read and the two state bits the reader can set.
  \<open>good()\<close> holds when neither is set.
\<close>

record wifstream =
  unread :: wstring
  eofbit :: bool
  failbit :: bool

definition good :: "wifstream \<Rightarrow> bool" where
  "good f = (\<not> eofbit f \<and> \<not> failbit f)"

definition wifstream_open :: "file_system \<Rightarrow> wstring \<Rightarrow> wifstream option" where
  "wifstream_open fs path =
     (case fs path of
        Regular text \<Rightarrow> Some \<lparr>unread = text, eofbit = False, failbit = False\<rparr>
      | _ \<Rightarrow> None)"

text \<open>White space of the classic locale: space, tab, line feed, vertical tab, form feed, carriage return.\<close>

definition iswspace :: "wchar_t \<Rightarrow> bool" where
  "iswspace c = (c = 32 \<or> (9 \<le> c \<and> c \<le> 13))"

text \<open>
  \<open>wFileInput >> line\<close> on a stream that is good, into a string that is empty. Leading
  white space is skipped; when the text ends there, both bits are set and nothing is
  stored. Otherwise the characters up to the next white space are stored; when the text
  ends before any white space, \<open>eofbit\<close> is set.
\<close>

definition stream_extract :: "wifstream \<Rightarrow> wstring \<times> wifstream" where
  "stream_extract f =
     (let r = dropWhile iswspace (unread f)
      in if r = [] then ([], f\<lparr>unread := [], eofbit := True, failbit := True\<rparr>)
         else let r' = dropWhile (\<lambda>c. \<not> iswspace c) r
              in (takeWhile (\<lambda>c. \<not> iswspace c) r, f\<lparr>unread := r', eofbit := (r' = [])\<rparr>))"

text \<open>The loop \<open>while (wFileInput.good()) { wstring line; wFileInput >> line; _LogTable.emplace_back(line); }\<close>.\<close>

function read_loop :: "wifstream \<Rightarrow> wstring list \<Rightarrow> wstring list" where
  "read_loop f LogTable =
     (if good f then (let (line, f') = stream_extract f in read_loop f' (LogTable @ [line]))
      else LogTable)"
  by pat_completeness auto
termination
proof (relation "measure (\<lambda>(f, t). length (unread f) + (if good f then 1 else 0))")
  show "wf (measure (\<lambda>(f, t). length (unread f) + (if good f then 1 else 0)))"
    by simp
next
  fix f :: wifstream and LogTable :: "wstring list" and x :: "wstring \<times> wifstream"
    and line f'
  assume g: "good f" and x: "x = stream_extract f" and lf: "(line, f') = x"
  define r where "r = dropWhile iswspace (unread f)"
  have r_le: "length r \<le> length (unread f)"
    unfolding r_def by (rule length_dropWhile_le)
  have ex: "(line, f') =
      (if r = [] then ([], f\<lparr>unread := [], eofbit := True, failbit := True\<rparr>)
       else (takeWhile (\<lambda>c. \<not> iswspace c) r,
             f\<lparr>unread := dropWhile (\<lambda>c. \<not> iswspace c) r,
               eofbit := (dropWhile (\<lambda>c. \<not> iswspace c) r = [])\<rparr>))"
    unfolding lf x stream_extract_def r_def Let_def ..
  show "((f', LogTable @ [line]), (f, LogTable))
          \<in> measure (\<lambda>(f, t). length (unread f) + (if good f then 1 else 0))"
  proof (cases "r = []")
    case True
    with ex have "f' = f\<lparr>unread := [], eofbit := True, failbit := True\<rparr>"
      by simp
    with g show ?thesis by (simp add: good_def)
  next
    case False
    then obtain c cs where r: "r = c # cs" by (cases r) auto
    have "\<not> iswspace (hd r)"
      using False hd_dropWhile [of iswspace "unread f"] by (simp add: r_def)
    with r have c: "\<not> iswspace c" by simp
    have f': "unread f' = dropWhile (\<lambda>c. \<not> iswspace c) r"
      using ex False by simp
    have "length (unread f') \<le> length cs"
      unfolding f' r using c by (simp add: length_dropWhile_le)
    with r r_le have "length (unread f') < length (unread f)" by simp
    with g show ?thesis by simp
  qed
qed

declare read_loop.simps [simp del]

text \<open>
  \<open>Log::getLogFromFile\<close>: the value returned and the caller's vector after the call.
  The call changes nothing else.
\<close>

definition getLogFromFile :: "wstring list \<Rightarrow> log_state \<Rightarrow> bool \<times> wstring list" where
  "getLogFromFile LogTable s =
     (case wifstream_open (files s) (m_wstrLogFile s) of
        None \<Rightarrow> (False, LogTable)
      | Some wFileInput \<Rightarrow> (True, read_loop wFileInput LogTable))"

section \<open>Notions used to state the properties\<close>

text \<open>
  The banner of a level name and the framed block that \<open>writeLog\<close> composes around
  a message \<open>msg\<close>, written out as one concatenation.
\<close>

definition banner :: "wstring \<Rightarrow> wstring" where
  "banner name =
     replicate 60 (of_char CHR ''*'') @ L '' '' @ name @ L '' '' @ replicate 60 (of_char CHR ''*'')"

definition block :: "platform \<Rightarrow> wstring \<Rightarrow> wstring \<Rightarrow> wstring \<Rightarrow> 32 word \<Rightarrow> wstring \<Rightarrow> wstring" where
  "block p name FileName Function LineNumber msg =
     L ''\<newline>'' @ banner name @ L ''\<newline>'' @
     StrToWStr p (getCurrentLocalTime (localtime_now p)) @
     logInfo p FileName Function LineNumber @ msg @
     L ''\<newline>'' @ banner name @ L ''\<newline>''"


text \<open>The state in which a call ends, when it has one.\<close>

fun final_state :: "outcome \<Rightarrow> log_state option" where
  "final_state (Returns s) = Some s"
| "final_state (Throws e s) = Some s"
| "final_state Undefined = None"

text \<open>
  The white-space-delimited tokens of a text, in the words of the specification of the
  file reader: the maximal runs of characters that are not white space, in order.
\<close>

function ws_tokens :: "wstring \<Rightarrow> wstring list" where
  "ws_tokens text =
     (let r = dropWhile iswspace text
      in if r = [] then []
         else takeWhile (\<lambda>c. \<not> iswspace c) r # ws_tokens (dropWhile (\<lambda>c. \<not> iswspace c) r))"
  by pat_completeness auto
termination
proof (relation "measure length")
  show "wf (measure (length :: wstring \<Rightarrow> nat))"
    by simp
next
  fix inp r :: wstring
  assume r: "r = dropWhile iswspace inp" and ne: "r \<noteq> []"
  from ne obtain c cs where rc: "r = c # cs" by (cases r) auto
  have "\<not> iswspace (hd r)"
    using ne hd_dropWhile [of iswspace inp] by (simp add: r)
  with rc have "\<not> iswspace c" by simp
  then have "length (dropWhile (\<lambda>c. \<not> iswspace c) r) \<le> length cs"
    unfolding rc by (simp add: length_dropWhile_le)
  moreover have "length r \<le> length inp"
    unfolding r by (rule length_dropWhile_le)
  ultimately show "(dropWhile (\<lambda>c. \<not> iswspace c) r, inp) \<in> measure length"
    using rc by simp
qed

declare ws_tokens.simps [simp del]

text \<open>
  The expansion of a wide format for the directives \<open>%%\<close>, \<open>%d\<close> and \<open>%ls\<close>, as
  \<open>vswprintf\<close> performs it. \<open>None\<close> stands for everything else; arguments left over
  are ignored. It serves as the library function of the sample platform below.
\<close>

fun wformat :: "wstring \<Rightarrow> va_arg list \<Rightarrow> wstring option" where
  "wformat [] args = Some []"
| "wformat (c # cs) args =
     (if c \<noteq> of_char CHR ''%'' then map_option ((#) c) (wformat cs args)
      else (case cs of
              [] \<Rightarrow> None
            | d # ds \<Rightarrow>
                if d = of_char CHR ''%'' then map_option ((#) d) (wformat ds args)
                else if d = of_char CHR ''d'' then
                  (case args of
                     Arg_int i # rest \<Rightarrow> map_option ((@) (wdec (sint i))) (wformat ds rest)
                   | _ \<Rightarrow> None)
                else if d = of_char CHR ''l'' then
                  (case ds of
                     [] \<Rightarrow> None
                   | e # es \<Rightarrow>
                       if e = of_char CHR ''s'' then
                         (case args of
                            Arg_wstr w # rest \<Rightarrow> map_option ((@) w) (wformat es rest)
                          | _ \<Rightarrow> None)
                       else None)
                else None))"

text \<open>
  A sample platform: a 64-bit build whose code page converts every character to the
  code unit of the same value (as every Windows code page does for ASCII text), with
  \<open>wformat\<close>, cut to the size of the array, as its \<open>vswprintf\<close>; and the date of the
  file header of the source as a local time.
\<close>

definition ascii_platform :: "tm \<Rightarrow> 32 word \<Rightarrow> 32 word \<Rightarrow> platform" where
  "ascii_platform t pid tid =
     \<lparr>StrToWStr = L, localtime_now = t, getpid = pid, gettid = tid, sizeof_pointer = 8,
      vswprintf = (\<lambda>n fmt args. map_option (take (n - 1)) (wformat fmt args))\<rparr>"

definition date_2023_02_09 :: tm where
  "date_2023_02_09 =
     \<lparr>tm_year = 123, tm_mon = 1, tm_mday = 9, tm_hour = 12, tm_min = 34, tm_sec = 56\<rparr>"

section \<open>Properties\<close>

subsection \<open>The dispatcher and the target mask\<close>

lemma target_and_CONSOLE_bit: "target_and M LOG_TARGET_CONSOLE = bit (LOGTARGET_val M) 0"
  by (cases M) (simp_all add: target_and_def)

lemma target_and_FILE_bit: "target_and M LOG_TARGET_FILE = bit (LOGTARGET_val M) 1"
  by (cases M) (simp_all add: target_and_def bit_numeral_iff bit_Suc)

lemma no_bit_iff_NONE:
  "(\<not> bit (LOGTARGET_val M) 0 \<and> \<not> bit (LOGTARGET_val M) 1) = (M = LOG_TARGET_NONE)"
  by (cases M) simp_all

lemma outputToTarget_eq:
  "outputToTarget s =
     s\<lparr>wcout := (if bit (LOGTARGET_val (m_LogTarget s)) 0
                 then wcout s @ m_wstrLogBuffer s else wcout s),
       files := (if bit (LOGTARGET_val (m_LogTarget s)) 1
                 then wofstream_append (m_wstrLogFile s) (m_wstrLogBuffer s) (files s)
                 else files s)\<rparr>"
  by (simp add: outputToTarget_def getLogTarget_def Let_def
      target_and_CONSOLE_bit target_and_FILE_bit)

lemma wofstream_append_changes:
  "fs path \<noteq> Unopenable \<Longrightarrow> buf \<noteq> [] \<Longrightarrow> wofstream_append path buf fs path \<noteq> fs path"
  by (simp add: wofstream_append_def split: file_node.splits)

lemma wofstream_append_other:
  "q \<noteq> path \<Longrightarrow> wofstream_append path buf fs q = fs q"
  by (simp add: wofstream_append_def split: file_node.splits)

lemma wofstream_append_Regular:
  "fs path = Regular old \<Longrightarrow> wofstream_append path buf fs path = Regular (old @ buf)"
  by (simp add: wofstream_append_def)

lemma wofstream_append_No_file:
  "fs path = No_file \<Longrightarrow> wofstream_append path buf fs path = Regular buf"
  by (simp add: wofstream_append_def)

text \<open>
  Claim C3. For every target mask held in the registry when the dispatcher runs: the
  buffer is appended to the console text exactly when bit 0 (CONSOLE) of the mask is set,
  and the append of the buffer to the configured file is carried out exactly when bit 1
  (FILE) is set; both bits give both writes, of the same buffer; with no bit set the
  state is unchanged. Nothing but the console and the file system changes. For a buffer
  that is not empty the console text differs afterwards exactly when bit 0 is set, and
  the configured file (when it can be opened) differs exactly when bit 1 is set.
\<close>

theorem outputToTarget_by_mask:
  "wcout (outputToTarget s) =
     (if bit (LOGTARGET_val (m_LogTarget s)) 0 then wcout s @ m_wstrLogBuffer s else wcout s)
   \<and> files (outputToTarget s) =
     (if bit (LOGTARGET_val (m_LogTarget s)) 1
      then wofstream_append (m_wstrLogFile s) (m_wstrLogBuffer s) (files s) else files s)
   \<and> outputToTarget s = s\<lparr>wcout := wcout (outputToTarget s), files := files (outputToTarget s)\<rparr>
   \<and> (\<not> bit (LOGTARGET_val (m_LogTarget s)) 0 \<and> \<not> bit (LOGTARGET_val (m_LogTarget s)) 1
        \<longrightarrow> outputToTarget s = s)
   \<and> (m_wstrLogBuffer s \<noteq> []
        \<longrightarrow> (wcout (outputToTarget s) \<noteq> wcout s) = bit (LOGTARGET_val (m_LogTarget s)) 0)
   \<and> (m_wstrLogBuffer s \<noteq> [] \<and> files s (m_wstrLogFile s) \<noteq> Unopenable
        \<longrightarrow> (files (outputToTarget s) (m_wstrLogFile s) \<noteq> files s (m_wstrLogFile s))
             = bit (LOGTARGET_val (m_LogTarget s)) 1)"
proof -
  let ?s' = "outputToTarget s"
  have w: "wcout ?s' =
     (if bit (LOGTARGET_val (m_LogTarget s)) 0 then wcout s @ m_wstrLogBuffer s else wcout s)"
    by (subst outputToTarget_eq) simp
  have f: "files ?s' =
     (if bit (LOGTARGET_val (m_LogTarget s)) 1
      then wofstream_append (m_wstrLogFile s) (m_wstrLogBuffer s) (files s) else files s)"
    by (subst outputToTarget_eq) simp
  have frame: "?s' = s\<lparr>wcout := wcout ?s', files := files ?s'\<rparr>"
    by (subst (1) outputToTarget_eq) (simp add: w f)
  have noop: "\<not> bit (LOGTARGET_val (m_LogTarget s)) 0 \<and> \<not> bit (LOGTARGET_val (m_LogTarget s)) 1
        \<longrightarrow> ?s' = s"
    by (subst outputToTarget_eq) simp
  have cw: "m_wstrLogBuffer s \<noteq> []
        \<longrightarrow> (wcout ?s' \<noteq> wcout s) = bit (LOGTARGET_val (m_LogTarget s)) 0"
    by (simp add: w)
  have cf: "m_wstrLogBuffer s \<noteq> [] \<and> files s (m_wstrLogFile s) \<noteq> Unopenable
        \<longrightarrow> (files ?s' (m_wstrLogFile s) \<noteq> files s (m_wstrLogFile s))
             = bit (LOGTARGET_val (m_LogTarget s)) 1"
    by (simp add: f wofstream_append_changes)
  from w f frame noop cw cf show ?thesis by blast
qed

theorem outputToTarget_by_mask_witness:
  "m_wstrLogBuffer (Init LOG_LEVEL_INFO LOG_TARGET_CONSOLE_AND_FILE (L ''./t.log'')
         (initial_state [] (\<lambda>q. No_file) ''C'')) \<noteq> []
   \<and> files (Init LOG_LEVEL_INFO LOG_TARGET_CONSOLE_AND_FILE (L ''./t.log'')
         (initial_state [] (\<lambda>q. No_file) ''C'')) (L ''./t.log'') \<noteq> Unopenable
   \<and> wcout (outputToTarget (Init LOG_LEVEL_INFO LOG_TARGET_CONSOLE_AND_FILE (L ''./t.log'')
         (initial_state [] (\<lambda>q. No_file) ''C''))) = [0]
   \<and> files (outputToTarget (Init LOG_LEVEL_INFO LOG_TARGET_CONSOLE_AND_FILE (L ''./t.log'')
         (initial_state [] (\<lambda>q. No_file) ''C''))) (L ''./t.log'') = Regular [0]
   \<and> wcout (outputToTarget (Init LOG_LEVEL_INFO LOG_TARGET_CONSOLE_AND_FILE (L ''./t.log'')
         (initial_state [] (\<lambda>q. No_file) ''C''))) \<noteq> wcout (Init LOG_LEVEL_INFO LOG_TARGET_CONSOLE_AND_FILE (L ''./t.log'')
         (initial_state [] (\<lambda>q. No_file) ''C''))
   \<and> files (outputToTarget (Init LOG_LEVEL_INFO LOG_TARGET_CONSOLE_AND_FILE (L ''./t.log'')
         (initial_state [] (\<lambda>q. No_file) ''C''))) (L ''./t.log'') \<noteq> files (Init LOG_LEVEL_INFO LOG_TARGET_CONSOLE_AND_FILE (L ''./t.log'')
         (initial_state [] (\<lambda>q. No_file) ''C'')) (L ''./t.log'')
   \<and> outputToTarget (initial_state [] (\<lambda>q. No_file) ''C'') = (initial_state [] (\<lambda>q. No_file) ''C'')"
proof -
  define ini where "ini = initial_state [] (\<lambda>q. No_file) ''C''"
  define st where "st = Init LOG_LEVEL_INFO LOG_TARGET_CONSOLE_AND_FILE (L ''./t.log'') ini"
  have s: "m_LogTarget st = LOG_TARGET_CONSOLE_AND_FILE" "m_wstrLogBuffer st = [0]"
    "wcout st = []" "files st = (\<lambda>q. No_file)" "m_wstrLogFile st = L ''./t.log''"
    by (simp_all add: st_def ini_def Init_def initial_state_def setLogLevel_def setLogTarget_def
        setLogFile_def)
  have i: "m_LogTarget ini = LOG_TARGET_NONE"
    by (simp add: ini_def initial_state_def)
  have b: "bit (LOGTARGET_val LOG_TARGET_CONSOLE_AND_FILE) 0"
    "bit (LOGTARGET_val LOG_TARGET_CONSOLE_AND_FILE) 1"
    "\<not> bit (LOGTARGET_val LOG_TARGET_NONE) 0" "\<not> bit (LOGTARGET_val LOG_TARGET_NONE) 1"
    using target_and_CONSOLE_bit [of LOG_TARGET_CONSOLE_AND_FILE]
      target_and_FILE_bit [of LOG_TARGET_CONSOLE_AND_FILE]
      no_bit_iff_NONE [of LOG_TARGET_NONE]
    by (simp_all add: target_and_def)
  have h1: "m_wstrLogBuffer st \<noteq> []" and h2: "files st (L ''./t.log'') \<noteq> Unopenable"
    by (simp_all add: s)
  have 1: "wcout (outputToTarget st) = [0]"
    using outputToTarget_by_mask [of st, THEN conjunct1] by (simp add: s b)
  have "files (outputToTarget st) = wofstream_append (L ''./t.log'') [0] (\<lambda>q. No_file)"
    using outputToTarget_by_mask [of st, THEN conjunct2, THEN conjunct1] by (simp add: s b)
  then have 2: "files (outputToTarget st) (L ''./t.log'') = Regular [0]"
    by (simp add: wofstream_append_def)
  have 3: "outputToTarget ini = ini"
    using outputToTarget_by_mask [of ini, THEN conjunct2, THEN conjunct2, THEN conjunct2,
        THEN conjunct1] by (simp add: i b)
  have 4: "wcout (outputToTarget st) \<noteq> wcout st"
    using outputToTarget_by_mask [of st, THEN conjunct2, THEN conjunct2, THEN conjunct2,
        THEN conjunct2, THEN conjunct1, THEN mp, OF h1] by (simp add: s b)
  have h12: "m_wstrLogBuffer st \<noteq> [] \<and> files st (m_wstrLogFile st) \<noteq> Unopenable"
    using h1 h2 by (simp add: s)
  have 5: "files (outputToTarget st) (L ''./t.log'') \<noteq> files st (L ''./t.log'')"
    using outputToTarget_by_mask [of st, THEN conjunct2, THEN conjunct2, THEN conjunct2,
        THEN conjunct2, THEN conjunct2, THEN mp, OF h12] by (simp add: s b)
  from h1 h2 1 2 4 5 3 show ?thesis unfolding st_def ini_def by (intro conjI)
qed

subsection \<open>The ways a call of writeLog ends\<close>

lemma writeLog_filtered:
  "LOGLEVEL_val lvl > LOGLEVEL_val (m_LogLevel s) \<Longrightarrow> writeLog p lvl fl fn ln fmt args s = Returns s"
  by (simp add: writeLog_def)

lemma writeLog_NONE:
  assumes "LOGLEVEL_WSTRING lvl = None"
  shows "writeLog p lvl fl fn ln fmt args s =
           Throws out_of_range
             (s\<lparr>m_wstrLogBuffer := L ''\<newline>'' @ replicate 60 (of_char CHR ''*'') @ L '' ''\<rparr>)"
proof -
  from assms have "lvl = LOG_LEVEL_NONE" by (cases lvl) simp_all
  then show ?thesis
    by (simp add: writeLog_def Let_def buffer_add_def)
qed

lemma writeLog_wTimeBuffer_overrun:
  assumes "LOGLEVEL_val lvl \<le> LOGLEVEL_val (m_LogLevel s)"
    and "LOGLEVEL_WSTRING lvl = Some name"
    and "\<not> StrToWStr_fits p (getCurrentLocalTime (localtime_now p))
             (length (getCurrentLocalTime (localtime_now p)))"
  shows "writeLog p lvl fl fn ln fmt args s = Undefined"
  using assms by (simp add: writeLog_def Let_def)

lemma writeLog_Format_overrun:
  assumes "LOGLEVEL_val lvl \<le> LOGLEVEL_val (m_LogLevel s)"
    and "LOGLEVEL_WSTRING lvl = Some name"
    and "\<not> StrToWStr_fits p fmt (sizeof_pointer p)"
  shows "writeLog p lvl fl fn ln fmt args s = Undefined"
  using assms by (simp add: writeLog_def Let_def)

lemma writeLog_vswprintf_undefined:
  assumes "LOGLEVEL_val lvl \<le> LOGLEVEL_val (m_LogLevel s)"
    and "LOGLEVEL_WSTRING lvl = Some name"
    and "vswprintf p 256 (StrToWStr p fmt) args = None"
  shows "writeLog p lvl fl fn ln fmt args s = Undefined"
  using assms by (simp add: writeLog_def Let_def)

lemma writeLog_pass:
  assumes "LOGLEVEL_val lvl \<le> LOGLEVEL_val (m_LogLevel s)"
    and "LOGLEVEL_WSTRING lvl = Some name"
    and "StrToWStr_fits p (getCurrentLocalTime (localtime_now p))
             (length (getCurrentLocalTime (localtime_now p)))"
    and "StrToWStr_fits p fmt (sizeof_pointer p)"
    and "vswprintf p 256 (StrToWStr p fmt) args = Some msg"
  shows "writeLog p lvl fl fn ln fmt args s =
           Returns (outputToTarget (s\<lparr>m_wstrLogBuffer := block p name fl fn ln msg\<rparr>))"
  using assms
  by (simp add: writeLog_def Let_def buffer_add_def block_def banner_def)

text \<open>
  A conversion that keeps the length of the timestamp, as a code page does for digits,
  hyphens, colons and spaces, never fits \<open>wTimeBuffer\<close>: the array lacks the element
  for the terminating null. Every call at a level with a display name that passes the
  filter is then undefined.
\<close>

lemma wTimeBuffer_one_short:
  "length (StrToWStr p ts) = length ts \<Longrightarrow> \<not> StrToWStr_fits p ts (length ts)"
  by (simp add: StrToWStr_fits_def)

lemma writeLog_undefined_at_named_level:
  assumes "LOGLEVEL_val lvl \<le> LOGLEVEL_val (m_LogLevel s)"
    and "LOGLEVEL_WSTRING lvl = Some name"
    and "length (StrToWStr p (getCurrentLocalTime (localtime_now p))) =
           length (getCurrentLocalTime (localtime_now p))"
  shows "writeLog p lvl fl fn ln fmt args s = Undefined"
  using assms(1,2) wTimeBuffer_one_short [OF assms(3)] by (rule writeLog_wTimeBuffer_overrun)

text \<open>Every call that passes the filter and ends in a state ends in one of two ways.\<close>

lemma writeLog_defined_cases:
  assumes "final_state (writeLog p lvl fl fn ln fmt args s) = Some s'"
    and "LOGLEVEL_val lvl \<le> LOGLEVEL_val (m_LogLevel s)"
  shows "(lvl = LOG_LEVEL_NONE \<and>
          writeLog p lvl fl fn ln fmt args s = Throws out_of_range s' \<and>
          s' = s\<lparr>m_wstrLogBuffer := L ''\<newline>'' @ replicate 60 (of_char CHR ''*'') @ L '' ''\<rparr>)
       \<or> (\<exists>name msg. LOGLEVEL_WSTRING lvl = Some name \<and>
            vswprintf p 256 (StrToWStr p fmt) args = Some msg \<and>
            writeLog p lvl fl fn ln fmt args s = Returns s' \<and>
            s' = outputToTarget (s\<lparr>m_wstrLogBuffer := block p name fl fn ln msg\<rparr>))"
proof (cases "LOGLEVEL_WSTRING lvl")
  case None
  then have "lvl = LOG_LEVEL_NONE" by (cases lvl) simp_all
  with assms(1) None show ?thesis by (auto simp: writeLog_NONE)
next
  case (Some name)
  note name = this
  show ?thesis
  proof (cases "StrToWStr_fits p (getCurrentLocalTime (localtime_now p))
             (length (getCurrentLocalTime (localtime_now p)))")
    case False
    with assms name show ?thesis by (simp add: writeLog_wTimeBuffer_overrun)
  next
    case t: True
    show ?thesis
    proof (cases "StrToWStr_fits p fmt (sizeof_pointer p)")
      case False
      with assms name show ?thesis by (simp add: writeLog_Format_overrun)
    next
      case f: True
      show ?thesis
      proof (cases "vswprintf p 256 (StrToWStr p fmt) args")
        case None
        with assms name show ?thesis by (simp add: writeLog_vswprintf_undefined)
      next
        case (Some msg)
        with assms name t f show ?thesis by (auto simp: writeLog_pass)
      qed
    qed
  qed
qed

subsection \<open>Basic facts about the states and the block\<close>

lemma Init_fields:
  "m_LogLevel (Init l t f s) = l"
  "m_LogTarget (Init l t f s) = t"
  "m_wstrLogFile (Init l t f s) = f"
  "m_wstrLogBuffer (Init l t f s) = m_wstrLogBuffer s"
  "wcout (Init l t f s) = wcout s"
  "files (Init l t f s) = files s"
  "m_ResourceFlag (Init l t f s) = m_ResourceFlag s"
  "Init_runs (Init l t f s) = Suc (Init_runs s)"
  "m_Log (Init l t f s) = (if m_Log s = None then Some (Log_objects s) else m_Log s)"
  "Log_objects (Init l t f s) = (if m_Log s = None then Suc (Log_objects s) else Log_objects s)"
  by (simp_all add: Init_def setLogLevel_def setLogTarget_def setLogFile_def Let_def)

lemma initial_state_fields:
  "m_Log (initial_state out fs loc) = None"
  "m_wstrLogBuffer (initial_state out fs loc) = [0]"
  "m_wstrLogFile (initial_state out fs loc) = L ''./Log.txt''"
  "m_LogLevel (initial_state out fs loc) = LOG_LEVEL_NONE"
  "m_LogTarget (initial_state out fs loc) = LOG_TARGET_NONE"
  "m_ResourceFlag (initial_state out fs loc) = False"
  "wcout (initial_state out fs loc) = out"
  "files (initial_state out fs loc) = fs"
  "Log_objects (initial_state out fs loc) = 0"
  "Init_runs (initial_state out fs loc) = 0"
  by (simp_all add: initial_state_def)

lemma hd_block: "hd (block p name fl fn ln msg) = of_char CHR ''\<newline>''"
  by (simp add: block_def L_def)


lemma last_block: "last (block p name fl fn ln msg) = of_char CHR ''\<newline>''"
  by (simp add: block_def L_def)

lemma block_not_Nil: "block p name fl fn ln msg \<noteq> []"
  by (simp add: block_def L_def)


lemma outputToTarget_config:
  "m_LogLevel (outputToTarget s) = m_LogLevel s"
  "m_LogTarget (outputToTarget s) = m_LogTarget s"
  "m_wstrLogFile (outputToTarget s) = m_wstrLogFile s"
  "m_ResourceFlag (outputToTarget s) = m_ResourceFlag s"
  "m_Log (outputToTarget s) = m_Log s"
  "Init_runs (outputToTarget s) = Init_runs s"
  "Log_objects (outputToTarget s) = Log_objects s"
  by (subst outputToTarget_eq, simp)+

lemma timestamp_example: "getCurrentLocalTime date_2023_02_09 = ''2023-02-09 12:34:56''"
  by code_simp

text \<open>
  Claim C4. A call whose level is numerically greater than the configured threshold
  returns at once and leaves the whole state as it was: the buffer, the console, the
  files and the configuration.
\<close>

theorem writeLog_above_threshold_noop:
  "LOGLEVEL_val lvl > LOGLEVEL_val (m_LogLevel s) \<Longrightarrow>
   writeLog p lvl fl fn ln fmt args s = Returns s"
  by (simp add: writeLog_def)

theorem writeLog_above_threshold_noop_witness:
  "LOGLEVEL_val LOG_LEVEL_DEBUG >
     LOGLEVEL_val (m_LogLevel (Init LOG_LEVEL_WARNING LOG_TARGET_CONSOLE (L ''./Log.txt'')
       (initial_state [] (\<lambda>q. No_file) ''C'')))
   \<and> writeLog (ascii_platform date_2023_02_09 1234 42) LOG_LEVEL_DEBUG (L ''main.cpp'')
       (L ''main'') 7 ''value %d'' [Arg_int 3]
       (Init LOG_LEVEL_WARNING LOG_TARGET_CONSOLE (L ''./Log.txt'')
         (initial_state [] (\<lambda>q. No_file) ''C''))
     = Returns (Init LOG_LEVEL_WARNING LOG_TARGET_CONSOLE (L ''./Log.txt'')
         (initial_state [] (\<lambda>q. No_file) ''C''))"
proof -
  have gt: "LOGLEVEL_val LOG_LEVEL_DEBUG >
     LOGLEVEL_val (m_LogLevel (Init LOG_LEVEL_WARNING LOG_TARGET_CONSOLE (L ''./Log.txt'')
       (initial_state [] (\<lambda>q. No_file) ''C'')))"
    by (simp add: Init_fields)
  from gt writeLog_above_threshold_noop [OF gt] show ?thesis by (rule conjI)
qed

subsection \<open>Level filtering\<close>






subsection \<open>The content of the buffer\<close>




subsection \<open>The singleton accessor\<close>

lemma Instance_flag_set: "m_ResourceFlag s \<Longrightarrow> Instance s = (m_Log s, s)"
  by (simp add: Instance_def)

lemma Instance_sets_flag: "m_ResourceFlag (snd (Instance s))"
  by (simp add: Instance_def Let_def)

lemma Instance_returns_pointer: "fst (Instance s) = m_Log (snd (Instance s))"
  by (simp add: Instance_def Let_def)

lemma Instance_calls_flag_set:
  "m_ResourceFlag s \<Longrightarrow> Instance_calls n s = (replicate n (m_Log s), s)"
  by (induction n) (simp_all add: Instance_flag_set)

lemma Instance_calls_Suc:
  "Instance_calls (Suc n) s =
     (replicate (Suc n) (m_Log (snd (Instance s))), snd (Instance s))"
proof -
  obtain p s1 where i: "Instance s = (p, s1)" by (cases "Instance s")
  have "m_ResourceFlag s1" using Instance_sets_flag [of s] i by simp
  then have "Instance_calls n s1 = (replicate n (m_Log s1), s1)"
    by (rule Instance_calls_flag_set)
  moreover have "p = m_Log s1" using Instance_returns_pointer [of s] i by simp
  ultimately show ?thesis using i by simp
qed

lemma Instance_config:
  "m_LogLevel (snd (Instance s)) = m_LogLevel s"
  "m_LogTarget (snd (Instance s)) = m_LogTarget s"
  "m_wstrLogFile (snd (Instance s)) = m_wstrLogFile s"
  "m_wstrLogBuffer (snd (Instance s)) = m_wstrLogBuffer s"
  "wcout (snd (Instance s)) = wcout s"
  "files (snd (Instance s)) = files s"
  by (simp_all add: Instance_def Let_def Init_fields)

lemma Instance_runs:
  "Init_runs (snd (Instance s)) = (if m_ResourceFlag s then Init_runs s else Suc (Init_runs s))"
  by (simp add: Instance_def Let_def Init_fields)

lemma Instance_objects:
  "Log_objects (snd (Instance s)) =
     (if \<not> m_ResourceFlag s \<and> m_Log s = None then Suc (Log_objects s) else Log_objects s)"
  by (simp add: Instance_def Let_def Init_fields)

lemma Instance_pointer:
  "\<not> m_ResourceFlag s \<Longrightarrow>
   m_Log (snd (Instance s)) = (if m_Log s = None then Some (Log_objects s) else m_Log s)"
  by (simp add: Instance_def Let_def Init_fields)

text \<open>
  Claim C8. In a process where \<open>Instance\<close> has not run yet, any number \<open>n + 1\<close> of
  calls of \<open>Instance\<close> one after the other runs the body of \<open>Init\<close> exactly once, in
  the first call; every call returns the same pointer, which is not null; the state after
  all the calls is the state after the first; the configuration (level, target mask,
  file path) is the one before the calls; at most one \<open>Log\<close> object is constructed,
  and exactly one when there was none. Once the flag is set, a call of \<open>Instance\<close>
  returns the pointer and changes nothing.
\<close>

theorem Instance_runs_Init_once:
  "(m_ResourceFlag s \<longrightarrow> Instance s = (m_Log s, s))
   \<and> m_ResourceFlag (snd (Instance s))
   \<and> (\<not> m_ResourceFlag s \<longrightarrow>
        fst (Instance_calls (Suc n) s) = replicate (Suc n) (m_Log (snd (Instance s)))
        \<and> m_Log (snd (Instance s)) \<noteq> None
        \<and> snd (Instance_calls (Suc n) s) = snd (Instance s)
        \<and> Init_runs (snd (Instance_calls (Suc n) s)) = Suc (Init_runs s)
        \<and> Log_objects (snd (Instance_calls (Suc n) s)) =
            (if m_Log s = None then Suc (Log_objects s) else Log_objects s)
        \<and> m_LogLevel (snd (Instance_calls (Suc n) s)) = m_LogLevel s
        \<and> m_LogTarget (snd (Instance_calls (Suc n) s)) = m_LogTarget s
        \<and> m_wstrLogFile (snd (Instance_calls (Suc n) s)) = m_wstrLogFile s)"
proof (intro conjI impI)
  assume "m_ResourceFlag s"
  then show "Instance s = (m_Log s, s)" by (rule Instance_flag_set)
next
  show "m_ResourceFlag (snd (Instance s))" by (rule Instance_sets_flag)
next
  show "fst (Instance_calls (Suc n) s) = replicate (Suc n) (m_Log (snd (Instance s)))"
    by (simp only: Instance_calls_Suc fst_conv)
next
  assume "\<not> m_ResourceFlag s"
  then show "m_Log (snd (Instance s)) \<noteq> None" by (simp add: Instance_pointer)
next
  show "snd (Instance_calls (Suc n) s) = snd (Instance s)"
    by (simp only: Instance_calls_Suc snd_conv)
next
  assume "\<not> m_ResourceFlag s"
  then show "Init_runs (snd (Instance_calls (Suc n) s)) = Suc (Init_runs s)"
    by (simp only: Instance_calls_Suc snd_conv Instance_runs if_False)
next
  assume "\<not> m_ResourceFlag s"
  then show "Log_objects (snd (Instance_calls (Suc n) s)) =
            (if m_Log s = None then Suc (Log_objects s) else Log_objects s)"
    by (simp only: Instance_calls_Suc snd_conv Instance_objects) simp
next
  show "m_LogLevel (snd (Instance_calls (Suc n) s)) = m_LogLevel s"
    by (simp only: Instance_calls_Suc snd_conv Instance_config)
next
  show "m_LogTarget (snd (Instance_calls (Suc n) s)) = m_LogTarget s"
    by (simp only: Instance_calls_Suc snd_conv Instance_config)
next
  show "m_wstrLogFile (snd (Instance_calls (Suc n) s)) = m_wstrLogFile s"
    by (simp only: Instance_calls_Suc snd_conv Instance_config)
qed

theorem Instance_runs_Init_once_witness:
  "\<not> m_ResourceFlag (initial_state [] (\<lambda>q. No_file) ''C'')
   \<and> fst (Instance_calls (Suc 2) (initial_state [] (\<lambda>q. No_file) ''C'')) = [Some 0, Some 0, Some 0]
   \<and> Init_runs (snd (Instance_calls (Suc 2) (initial_state [] (\<lambda>q. No_file) ''C''))) = 1
   \<and> Log_objects (snd (Instance_calls (Suc 2) (initial_state [] (\<lambda>q. No_file) ''C''))) = 1
   \<and> m_ResourceFlag (snd (Instance (initial_state [] (\<lambda>q. No_file) ''C'')))
   \<and> Instance (snd (Instance (initial_state [] (\<lambda>q. No_file) ''C''))) =
       (Some 0, snd (Instance (initial_state [] (\<lambda>q. No_file) ''C'')))"
proof -
  define ini where "ini = initial_state [] (\<lambda>q. No_file) ''C''"
  have nf: "\<not> m_ResourceFlag ini"
    by (simp add: ini_def initial_state_fields)
  have p: "m_Log (snd (Instance ini)) = Some 0"
    using nf by (simp add: Instance_pointer) (simp add: ini_def initial_state_fields)
  note first = Instance_runs_Init_once [of ini 2, THEN conjunct2, THEN conjunct2, THEN mp, OF nf]
  have 1: "fst (Instance_calls (Suc 2) ini) = [Some 0, Some 0, Some 0]"
    using first [THEN conjunct1] by (simp add: p numeral_2_eq_2)
  have 2: "Init_runs (snd (Instance_calls (Suc 2) ini)) = 1"
    using first [THEN conjunct2, THEN conjunct2, THEN conjunct2, THEN conjunct1]
    by (simp add: ini_def initial_state_fields)
  have 3: "Log_objects (snd (Instance_calls (Suc 2) ini)) = 1"
    using first [THEN conjunct2, THEN conjunct2, THEN conjunct2, THEN conjunct2, THEN conjunct1]
    by (simp add: ini_def initial_state_fields)
  have 4: "m_ResourceFlag (snd (Instance ini))"
    using Instance_runs_Init_once [of ini 0, THEN conjunct2, THEN conjunct1] .
  have 5: "Instance (snd (Instance ini)) = (Some 0, snd (Instance ini))"
    using Instance_runs_Init_once [of "snd (Instance ini)" 0, THEN conjunct1, THEN mp, OF 4]
    by (simp add: p)
  from nf 1 2 3 4 5 show ?thesis unfolding ini_def by (intro conjI)
qed

subsection \<open>Lazy initialisation and writeLog\<close>

lemma writeLog_preserves_registry:
  assumes "final_state (writeLog p lvl fl fn ln fmt args s) = Some s'"
  shows "m_ResourceFlag s' = m_ResourceFlag s \<and> m_Log s' = m_Log s \<and>
         Init_runs s' = Init_runs s \<and> Log_objects s' = Log_objects s \<and>
         m_LogLevel s' = m_LogLevel s \<and> m_LogTarget s' = m_LogTarget s \<and>
         m_wstrLogFile s' = m_wstrLogFile s"
proof (cases "LOGLEVEL_val lvl > LOGLEVEL_val (m_LogLevel s)")
  case True
  then have "writeLog p lvl fl fn ln fmt args s = Returns s" by (rule writeLog_filtered)
  with assms show ?thesis by simp
next
  case False
  then have "LOGLEVEL_val lvl \<le> LOGLEVEL_val (m_LogLevel s)" by simp
  with assms have "s' = s\<lparr>m_wstrLogBuffer := L ''\<newline>'' @ replicate 60 (of_char CHR ''*'') @ L '' ''\<rparr>
      \<or> (\<exists>name msg. s' = outputToTarget (s\<lparr>m_wstrLogBuffer := block p name fl fn ln msg\<rparr>))"
    using writeLog_defined_cases by blast
  then show ?thesis by (auto simp: outputToTarget_config)
qed

lemma writeLog_silent_at_threshold_NONE:
  assumes "m_LogLevel s = LOG_LEVEL_NONE"
    and "final_state (writeLog p lvl fl fn ln fmt args s) = Some s'"
  shows "wcout s' = wcout s \<and> files s' = files s"
proof (cases "lvl = LOG_LEVEL_NONE")
  case True
  with assms(2) show ?thesis by (auto simp: writeLog_NONE)
next
  case False
  then have "LOGLEVEL_val lvl > LOGLEVEL_val (m_LogLevel s)"
    using assms(1) by (cases lvl) simp_all
  then have "writeLog p lvl fl fn ln fmt args s = Returns s" by (rule writeLog_filtered)
  with assms(2) show ?thesis by simp
qed

text \<open>
  Claim C9. From the state set up by the static initialisers, the first call of
  \<open>Instance\<close> runs \<open>Init\<close> once with the current static values, so the configuration
  stays at level \<open>LOG_LEVEL_NONE\<close>, target \<open>LOG_TARGET_NONE\<close> and path
  \<open>./Log.txt\<close>: no target bit is set, the dispatcher does nothing, and no call of
  \<open>writeLog\<close> writes to the console or to a file. A call of \<open>writeLog\<close>, in any
  state and however it ends, leaves the once-flag, the instance pointer, the number of
  runs of \<open>Init\<close> and the configuration as they were: it never triggers the
  initialisation.
\<close>

theorem lazy_Init_keeps_defaults:
  "m_LogLevel (snd (Instance (initial_state out fs loc))) = LOG_LEVEL_NONE
   \<and> m_LogTarget (snd (Instance (initial_state out fs loc))) = LOG_TARGET_NONE
   \<and> m_wstrLogFile (snd (Instance (initial_state out fs loc))) = L ''./Log.txt''
   \<and> Init_runs (snd (Instance (initial_state out fs loc))) = 1
   \<and> \<not> bit (LOGTARGET_val (m_LogTarget (snd (Instance (initial_state out fs loc))))) 0
   \<and> \<not> bit (LOGTARGET_val (m_LogTarget (snd (Instance (initial_state out fs loc))))) 1
   \<and> outputToTarget (snd (Instance (initial_state out fs loc))) =
       snd (Instance (initial_state out fs loc))
   \<and> (\<forall>s'. final_state (writeLog p lvl fl fn ln fmt args
               (snd (Instance (initial_state out fs loc)))) = Some s' \<longrightarrow>
            wcout s' = out \<and> files s' = fs)
   \<and> (\<forall>s'. final_state (writeLog p lvl fl fn ln fmt args s) = Some s' \<longrightarrow>
            m_ResourceFlag s' = m_ResourceFlag s \<and> m_Log s' = m_Log s \<and>
            Init_runs s' = Init_runs s \<and> Log_objects s' = Log_objects s \<and>
            m_LogLevel s' = m_LogLevel s \<and> m_LogTarget s' = m_LogTarget s \<and>
            m_wstrLogFile s' = m_wstrLogFile s)"
proof -
  let ?s1 = "snd (Instance (initial_state out fs loc))"
  have lv: "m_LogLevel ?s1 = LOG_LEVEL_NONE"
    and tg: "m_LogTarget ?s1 = LOG_TARGET_NONE"
    and fl: "m_wstrLogFile ?s1 = L ''./Log.txt''"
    and out: "wcout ?s1 = out" "files ?s1 = fs"
    by (simp_all add: Instance_config initial_state_fields)
  have runs: "Init_runs ?s1 = 1"
    by (simp add: Instance_runs initial_state_fields)
  have nb: "\<not> bit (LOGTARGET_val (m_LogTarget ?s1)) 0 \<and> \<not> bit (LOGTARGET_val (m_LogTarget ?s1)) 1"
    using tg by (simp only: no_bit_iff_NONE)
  have noop: "outputToTarget ?s1 = ?s1"
    using nb by (subst outputToTarget_eq) simp
  have silent: "\<forall>s'. final_state (writeLog p lvl fl fn ln fmt args ?s1) = Some s' \<longrightarrow>
            wcout s' = out \<and> files s' = fs"
    using writeLog_silent_at_threshold_NONE [OF lv] out by metis
  have frame: "\<forall>s'. final_state (writeLog p lvl fl fn ln fmt args s) = Some s' \<longrightarrow>
            m_ResourceFlag s' = m_ResourceFlag s \<and> m_Log s' = m_Log s \<and>
            Init_runs s' = Init_runs s \<and> Log_objects s' = Log_objects s \<and>
            m_LogLevel s' = m_LogLevel s \<and> m_LogTarget s' = m_LogTarget s \<and>
            m_wstrLogFile s' = m_wstrLogFile s"
    using writeLog_preserves_registry by blast
  from lv tg fl runs nb noop silent frame show ?thesis by (intro conjI) blast+
qed

theorem lazy_Init_keeps_defaults_witness:
  "m_LogLevel (snd (Instance (initial_state [] (\<lambda>q. No_file) ''C''))) = LOG_LEVEL_NONE
   \<and> m_LogTarget (snd (Instance (initial_state [] (\<lambda>q. No_file) ''C''))) = LOG_TARGET_NONE
   \<and> m_wstrLogFile (snd (Instance (initial_state [] (\<lambda>q. No_file) ''C''))) = L ''./Log.txt''
   \<and> final_state (writeLog (ascii_platform date_2023_02_09 1234 42) LOG_LEVEL_ERROR (L ''main.cpp'') (L ''main'') 7 ''disk full'' [] (snd (Instance (initial_state [] (\<lambda>q. No_file) ''C'')))) = Some (snd (Instance (initial_state [] (\<lambda>q. No_file) ''C'')))
   \<and> wcout (snd (Instance (initial_state [] (\<lambda>q. No_file) ''C''))) = []
   \<and> files (snd (Instance (initial_state [] (\<lambda>q. No_file) ''C''))) = (\<lambda>q. No_file)
   \<and> final_state (writeLog (ascii_platform date_2023_02_09 1234 42) LOG_LEVEL_NONE (L ''main.cpp'') (L ''main'') 7 ''disk full'' [] (Init LOG_LEVEL_WARNING LOG_TARGET_CONSOLE (L ''./Log.txt'') (initial_state [] (\<lambda>q. No_file) ''C''))) = Some ((Init LOG_LEVEL_WARNING LOG_TARGET_CONSOLE (L ''./Log.txt'') (initial_state [] (\<lambda>q. No_file) ''C''))\<lparr>m_wstrLogBuffer := L ''\<newline>'' @ replicate 60 (of_char CHR ''*'') @ L '' ''\<rparr>)
   \<and> \<not> m_ResourceFlag ((Init LOG_LEVEL_WARNING LOG_TARGET_CONSOLE (L ''./Log.txt'') (initial_state [] (\<lambda>q. No_file) ''C''))\<lparr>m_wstrLogBuffer := L ''\<newline>'' @ replicate 60 (of_char CHR ''*'') @ L '' ''\<rparr>)
   \<and> m_Log ((Init LOG_LEVEL_WARNING LOG_TARGET_CONSOLE (L ''./Log.txt'') (initial_state [] (\<lambda>q. No_file) ''C''))\<lparr>m_wstrLogBuffer := L ''\<newline>'' @ replicate 60 (of_char CHR ''*'') @ L '' ''\<rparr>) = Some 0
   \<and> Init_runs ((Init LOG_LEVEL_WARNING LOG_TARGET_CONSOLE (L ''./Log.txt'') (initial_state [] (\<lambda>q. No_file) ''C''))\<lparr>m_wstrLogBuffer := L ''\<newline>'' @ replicate 60 (of_char CHR ''*'') @ L '' ''\<rparr>) = 1"
proof -
  define ini where "ini = initial_state [] (\<lambda>q. No_file) ''C''"
  define s1 where "s1 = snd (Instance ini)"
  define st where "st = Init LOG_LEVEL_WARNING LOG_TARGET_CONSOLE (L ''./Log.txt'') ini"
  define P where "P = ascii_platform date_2023_02_09 1234 42"
  define X where "X = st\<lparr>m_wstrLogBuffer :=
      L ''\<newline>'' @ replicate 60 (of_char CHR ''*'') @ L '' ''\<rparr>"
  note first = lazy_Init_keeps_defaults [of "[]" "\<lambda>q. No_file" "''C''" P LOG_LEVEL_ERROR
      "L ''main.cpp''" "L ''main''" 7 "''disk full''" "[]" st, folded ini_def, folded s1_def]
  note second = lazy_Init_keeps_defaults [of "[]" "\<lambda>q. No_file" "''C''" P LOG_LEVEL_NONE
      "L ''main.cpp''" "L ''main''" 7 "''disk full''" "[]" st, folded ini_def, folded s1_def]
  have 1: "m_LogLevel s1 = LOG_LEVEL_NONE"
    and 2: "m_LogTarget s1 = LOG_TARGET_NONE"
    and 3: "m_wstrLogFile s1 = L ''./Log.txt''"
    using first by blast+
  have "LOGLEVEL_val LOG_LEVEL_ERROR > LOGLEVEL_val (m_LogLevel s1)"
    by (simp add: 1)
  then have 4: "final_state (writeLog P LOG_LEVEL_ERROR (L ''main.cpp'') (L ''main'') 7
      ''disk full'' [] s1) = Some s1"
    by (simp add: writeLog_filtered)
  with first have 5: "wcout s1 = []" and 6: "files s1 = (\<lambda>q. No_file)"
    by blast+
  have 7: "final_state (writeLog P LOG_LEVEL_NONE (L ''main.cpp'') (L ''main'') 7
      ''disk full'' [] st) = Some X"
    unfolding X_def by (simp add: writeLog_NONE)
  with second have "m_ResourceFlag X = m_ResourceFlag st" "m_Log X = m_Log st"
    "Init_runs X = Init_runs st"
    by blast+
  then have 8: "\<not> m_ResourceFlag X" and 9: "m_Log X = Some 0" and 10: "Init_runs X = 1"
    by (simp_all add: st_def ini_def Init_fields initial_state_fields)
  from 1 2 3 4 5 6 7 8 9 10 show ?thesis
    unfolding X_def st_def s1_def P_def ini_def by (intro conjI)
qed

subsection \<open>The read loop and the white-space-delimited tokens\<close>

lemma ws_tokens_all_space: "dropWhile iswspace cs = [] \<Longrightarrow> ws_tokens cs = []"
  by (subst ws_tokens.simps) (simp del: dropWhile_eq_Nil_conv)

lemma ws_tokens_Nil: "ws_tokens [] = []"
  by (rule ws_tokens_all_space) simp

lemma ws_tokens_step:
  "dropWhile iswspace cs \<noteq> [] \<Longrightarrow>
   ws_tokens cs =
     takeWhile (\<lambda>c. \<not> iswspace c) (dropWhile iswspace cs) #
     ws_tokens (dropWhile (\<lambda>c. \<not> iswspace c) (dropWhile iswspace cs))"
  by (subst ws_tokens.simps) (simp add: Let_def del: dropWhile_eq_Nil_conv)

lemma last_dropWhile: "dropWhile P xs \<noteq> [] \<Longrightarrow> last (dropWhile P xs) = last xs"
  by (induction xs) (auto split: if_splits)

lemma dropWhile_Nil_last: "xs \<noteq> [] \<Longrightarrow> dropWhile P xs = [] \<Longrightarrow> P (last xs)"
  by (induction xs) (auto split: if_splits)

lemma stream_extract_end:
  "dropWhile iswspace (unread f) = [] \<Longrightarrow>
   stream_extract f = ([], f\<lparr>unread := [], eofbit := True, failbit := True\<rparr>)"
  by (simp add: stream_extract_def del: dropWhile_eq_Nil_conv)

lemma stream_extract_token:
  "dropWhile iswspace (unread f) \<noteq> [] \<Longrightarrow>
   stream_extract f =
     (takeWhile (\<lambda>c. \<not> iswspace c) (dropWhile iswspace (unread f)),
      f\<lparr>unread := dropWhile (\<lambda>c. \<not> iswspace c) (dropWhile iswspace (unread f)),
        eofbit := (dropWhile (\<lambda>c. \<not> iswspace c) (dropWhile iswspace (unread f)) = [])\<rparr>)"
  by (simp add: stream_extract_def Let_def del: dropWhile_eq_Nil_conv)

lemma read_loop_not_good: "\<not> good f \<Longrightarrow> read_loop f tbl = tbl"
  by (subst read_loop.simps) simp

lemma read_loop_good:
  "good f \<Longrightarrow> read_loop f tbl = read_loop (snd (stream_extract f)) (tbl @ [fst (stream_extract f)])"
  by (subst read_loop.simps) (simp add: case_prod_beta)

lemma read_loop_tokens:
  "good f \<Longrightarrow>
   read_loop f tbl =
     tbl @ ws_tokens (unread f) @
     (if unread f = [] \<or> iswspace (last (unread f)) then [[]] else [])"
proof (induction "length (unread f)" arbitrary: f tbl rule: less_induct)
  case less
  let ?r = "dropWhile iswspace (unread f)"
  let ?r' = "dropWhile (\<lambda>c. \<not> iswspace c) ?r"
  let ?tok = "takeWhile (\<lambda>c. \<not> iswspace c) ?r"
  show ?case
  proof (cases "?r = []")
    case True
    have sp: "unread f = [] \<or> iswspace (last (unread f))"
      using True dropWhile_Nil_last [of "unread f" iswspace] by blast
    have "read_loop f tbl =
        read_loop (f\<lparr>unread := [], eofbit := True, failbit := True\<rparr>) (tbl @ [[]])"
      using less.prems True by (simp add: read_loop_good stream_extract_end)
    also have "\<dots> = tbl @ [[]]"
      by (rule read_loop_not_good) (simp add: good_def)
    finally show ?thesis
      using sp by (simp add: ws_tokens_all_space [OF True])
  next
    case False
    then have ne: "unread f \<noteq> []" by auto
    have last_r: "last ?r = last (unread f)"
      using False by (rule last_dropWhile)
    let ?f' = "f\<lparr>unread := ?r', eofbit := (?r' = [])\<rparr>"
    have step: "read_loop f tbl = read_loop ?f' (tbl @ [?tok])"
      using less.prems False by (simp add: read_loop_good stream_extract_token)
    have toks: "ws_tokens (unread f) = ?tok # ws_tokens ?r'"
      using False by (rule ws_tokens_step)
    show ?thesis
    proof (cases "?r' = []")
      case True
      have "\<not> iswspace (last ?r)"
        using dropWhile_Nil_last [OF False True] .
      then have ns: "\<not> iswspace (last (unread f))" by (simp add: last_r)
      have "read_loop ?f' (tbl @ [?tok]) = tbl @ [?tok]"
        by (rule read_loop_not_good) (simp add: good_def True)
      with step have "read_loop f tbl = tbl @ [?tok]" by simp
      moreover have "ws_tokens (unread f) = [?tok]"
        using toks True by (simp add: ws_tokens_Nil del: dropWhile_eq_Nil_conv)
      ultimately show ?thesis
        using ns ne by simp
    next
      case r': False
      have good': "good ?f'"
        using less.prems r' by (simp add: good_def)
      have "length ?r' < length ?r"
      proof -
        from False obtain c cs where rc: "?r = c # cs" by (cases ?r) auto
        have "\<not> iswspace (hd ?r)" using False hd_dropWhile [of iswspace "unread f"] by simp
        with rc have "\<not> iswspace c" by simp
        then have "length ?r' \<le> length cs"
          by (simp add: rc length_dropWhile_le)
        then show ?thesis by (simp add: rc)
      qed
      also have "\<dots> \<le> length (unread f)"
        by (rule length_dropWhile_le)
      finally have shorter: "length (unread ?f') < length (unread f)" by simp
      have "read_loop ?f' (tbl @ [?tok]) =
          (tbl @ [?tok]) @ ws_tokens (unread ?f') @
          (if unread ?f' = [] \<or> iswspace (last (unread ?f')) then [[]] else [])"
        using shorter good' by (rule less.hyps)
      moreover have "last ?r' = last (unread f)"
        using last_dropWhile [OF r'] last_r by simp
      ultimately show ?thesis
        using step toks r' ne by (simp del: dropWhile_eq_Nil_conv)
    qed
  qed
qed

lemma ws_tokens_sound:
  "w \<in> set (ws_tokens cs) \<Longrightarrow> w \<noteq> [] \<and> (\<forall>c\<in>set w. \<not> iswspace c)"
proof (induction cs rule: ws_tokens.induct)
  case (1 cs)
  let ?r = "dropWhile iswspace cs"
  show ?case
  proof (cases "?r = []")
    case True
    with 1 show ?thesis by (simp add: ws_tokens_all_space del: dropWhile_eq_Nil_conv)
  next
    case False
    have hd: "\<not> iswspace (hd ?r)"
      using False hd_dropWhile [of iswspace cs] by simp
    from False obtain c r0 where rc: "?r = c # r0" by (cases ?r) auto
    with hd have ne: "takeWhile (\<lambda>c. \<not> iswspace c) ?r \<noteq> []" by simp
    have ns: "\<forall>c\<in>set (takeWhile (\<lambda>c. \<not> iswspace c) ?r). \<not> iswspace c"
      by (auto dest: set_takeWhileD)
    have "w = takeWhile (\<lambda>c. \<not> iswspace c) ?r \<or>
        w \<in> set (ws_tokens (dropWhile (\<lambda>c. \<not> iswspace c) ?r))"
      using "1.prems" by (simp add: ws_tokens_step [OF False])
    then show ?thesis
    proof
      assume w: "w = takeWhile (\<lambda>c. \<not> iswspace c) ?r"
      from ne ns show ?thesis unfolding w by (rule conjI)
    next
      assume "w \<in> set (ws_tokens (dropWhile (\<lambda>c. \<not> iswspace c) ?r))"
      then show ?thesis by (rule "1.IH" [OF refl False])
    qed
  qed
qed

lemma concat_ws_tokens: "concat (ws_tokens cs) = filter (\<lambda>c. \<not> iswspace c) cs"
proof (induction cs rule: ws_tokens.induct)
  case (1 cs)
  let ?r = "dropWhile iswspace cs"
  have split: "cs = takeWhile iswspace cs @ ?r" by simp
  have f1: "filter (\<lambda>c. \<not> iswspace c) (takeWhile iswspace cs) = []"
    by (auto simp: filter_empty_conv dest: set_takeWhileD)
  have cs: "filter (\<lambda>c. \<not> iswspace c) cs = filter (\<lambda>c. \<not> iswspace c) ?r"
    by (subst split, subst filter_append) (simp only: f1 append_Nil)
  show ?case
  proof (cases "?r = []")
    case True
    then show ?thesis
      by (simp add: ws_tokens_all_space cs del: dropWhile_eq_Nil_conv)
  next
    case False
    let ?t = "takeWhile (\<lambda>c. \<not> iswspace c) ?r"
    let ?r' = "dropWhile (\<lambda>c. \<not> iswspace c) ?r"
    have "filter (\<lambda>c. \<not> iswspace c) ?r =
        filter (\<lambda>c. \<not> iswspace c) ?t @ filter (\<lambda>c. \<not> iswspace c) ?r'"
      by (subst takeWhile_dropWhile_id [of "\<lambda>c. \<not> iswspace c" ?r, symmetric])
         (simp only: filter_append)
    moreover have "filter (\<lambda>c. \<not> iswspace c) ?t = ?t"
      by (auto simp: filter_id_conv dest: set_takeWhileD)
    ultimately show ?thesis
      using "1.IH" [OF refl False] by (simp add: ws_tokens_step [OF False] cs)
  qed
qed

lemma getLogFromFile_unopened:
  "files s (m_wstrLogFile s) = No_file \<or> files s (m_wstrLogFile s) = Unopenable \<Longrightarrow>
   getLogFromFile tbl s = (False, tbl)"
  by (auto simp: getLogFromFile_def wifstream_open_def)

lemma getLogFromFile_opened:
  assumes "files s (m_wstrLogFile s) = Regular content"
  shows "getLogFromFile tbl s =
      (True, tbl @ ws_tokens content @
             (if content = [] \<or> iswspace (last content) then [[]] else []))"
proof -
  let ?f = "\<lparr>unread = content, eofbit = False, failbit = False\<rparr>"
  have "good ?f" by (simp add: good_def)
  then have "read_loop ?f tbl = tbl @ ws_tokens (unread ?f) @
     (if unread ?f = [] \<or> iswspace (last (unread ?f)) then [[]] else [])"
    by (rule read_loop_tokens)
  with assms show ?thesis
    by (simp add: getLogFromFile_def wifstream_open_def)
qed

lemma ws_tokens_no_empty: "filter (\<lambda>w. w \<noteq> []) (ws_tokens cs) = ws_tokens cs"
  using ws_tokens_sound [of _ cs] by (auto simp: filter_id_conv)

lemma writeLog_Returns_block:
  assumes "writeLog p lvl fl fn ln fmt args s = Returns s'"
    and "LOGLEVEL_val lvl \<le> LOGLEVEL_val (m_LogLevel s)"
  shows "\<exists>name msg. s' = outputToTarget (s\<lparr>m_wstrLogBuffer := block p name fl fn ln msg\<rparr>)"
proof -
  from assms(1) have "final_state (writeLog p lvl fl fn ln fmt args s) = Some s'"
    by simp
  from writeLog_defined_cases [OF this assms(2)] assms(1) show ?thesis
    by auto
qed

lemma iswspace_newline: "iswspace (of_char CHR ''\<newline>'')"
  by (simp add: iswspace_def)

lemma written_file_ends_with_newline:
  assumes "writeLog p lvl fl fn ln fmt args s = Returns s'"
    and "LOGLEVEL_val lvl \<le> LOGLEVEL_val (m_LogLevel s)"
    and "bit (LOGTARGET_val (m_LogTarget s)) 1"
    and "files s (m_wstrLogFile s) \<noteq> Unopenable"
  shows "\<exists>content. files s' (m_wstrLogFile s') = Regular content \<and> content \<noteq> [] \<and>
           last content = of_char CHR ''\<newline>''"
proof -
  from assms(1,2) obtain name msg
    where s': "s' = outputToTarget (s\<lparr>m_wstrLogBuffer := block p name fl fn ln msg\<rparr>)"
    using writeLog_Returns_block by blast
  let ?b = "block p name fl fn ln msg"
  have path: "m_wstrLogFile s' = m_wstrLogFile s"
    unfolding s' by (simp add: outputToTarget_config)
  have fs: "files s' = wofstream_append (m_wstrLogFile s) ?b (files s)"
    unfolding s' using assms(3) by (subst outputToTarget_eq) simp
  show ?thesis
  proof (cases "files s (m_wstrLogFile s)")
    case No_file
    then have "files s' (m_wstrLogFile s') = Regular ?b"
      by (simp add: path fs wofstream_append_No_file)
    then show ?thesis using block_not_Nil last_block by blast
  next
    case Unopenable
    with assms(4) show ?thesis by simp
  next
    case (Regular old)
    then have "files s' (m_wstrLogFile s') = Regular (old @ ?b)"
      by (simp add: path fs wofstream_append_Regular)
    moreover have "old @ ?b \<noteq> []" "last (old @ ?b) = of_char CHR ''\<newline>''"
      using block_not_Nil [of p name fl fn ln msg] last_block [of p name fl fn ln msg]
      by simp_all
    ultimately show ?thesis by blast
  qed
qed

lemma outputToTarget_file_ends_with_space:
  assumes "bit (LOGTARGET_val (m_LogTarget s)) 1"
    and "files s (m_wstrLogFile s) \<noteq> Unopenable"
    and "m_wstrLogBuffer s \<noteq> []"
    and "iswspace (last (m_wstrLogBuffer s))"
  shows "\<exists>written. files (outputToTarget s) (m_wstrLogFile (outputToTarget s)) = Regular written \<and>
           written \<noteq> [] \<and> iswspace (last written)"
proof -
  let ?b = "m_wstrLogBuffer s"
  have path: "m_wstrLogFile (outputToTarget s) = m_wstrLogFile s"
    by (simp add: outputToTarget_config)
  have fs: "files (outputToTarget s) = wofstream_append (m_wstrLogFile s) ?b (files s)"
    using assms(1) by (subst outputToTarget_eq) simp
  show ?thesis
  proof (cases "files s (m_wstrLogFile s)")
    case No_file
    then have "files (outputToTarget s) (m_wstrLogFile (outputToTarget s)) = Regular ?b"
      by (simp add: path fs wofstream_append_No_file)
    with assms(3,4) show ?thesis by blast
  next
    case Unopenable
    with assms(2) show ?thesis by simp
  next
    case (Regular old)
    then have "files (outputToTarget s) (m_wstrLogFile (outputToTarget s)) = Regular (old @ ?b)"
      by (simp add: path fs wofstream_append_Regular)
    moreover have "old @ ?b \<noteq> []" "iswspace (last (old @ ?b))"
      using assms(3,4) by simp_all
    ultimately show ?thesis by blast
  qed
qed

text \<open>
  Claim C6. When the configured log file cannot be opened (there is no such file, or it
  cannot be opened), \<open>getLogFromFile\<close> returns false and the caller's vector is as
  before. When it is a regular file, the loop ends, the call returns true, the elements
  it has appended after the caller's own are, apart from empty strings, exactly the
  white-space-delimited tokens of the whole text in their order; no token is empty or
  holds white space, and the appended elements joined give the text of the file without
  its white space.
\<close>

theorem getLogFromFile_reads_tokens:
  "(files s (m_wstrLogFile s) = No_file \<or> files s (m_wstrLogFile s) = Unopenable
      \<longrightarrow> getLogFromFile tbl s = (False, tbl))
   \<and> (files s (m_wstrLogFile s) = Regular content \<longrightarrow>
        fst (getLogFromFile tbl s) = True
        \<and> take (length tbl) (snd (getLogFromFile tbl s)) = tbl
        \<and> filter (\<lambda>w. w \<noteq> []) (drop (length tbl) (snd (getLogFromFile tbl s))) =
            ws_tokens content
        \<and> (\<forall>w\<in>set (ws_tokens content). w \<noteq> [] \<and> (\<forall>c\<in>set w. \<not> iswspace c))
        \<and> concat (drop (length tbl) (snd (getLogFromFile tbl s))) =
            filter (\<lambda>c. \<not> iswspace c) content)"
proof (intro conjI impI)
  assume "files s (m_wstrLogFile s) = No_file \<or> files s (m_wstrLogFile s) = Unopenable"
  then show "getLogFromFile tbl s = (False, tbl)" by (rule getLogFromFile_unopened)
next
  assume r: "files s (m_wstrLogFile s) = Regular content"
  note eq = getLogFromFile_opened [OF r, of tbl]
  show "fst (getLogFromFile tbl s) = True" by (simp add: eq)
  show "take (length tbl) (snd (getLogFromFile tbl s)) = tbl" by (simp add: eq)
  show "filter (\<lambda>w. w \<noteq> []) (drop (length tbl) (snd (getLogFromFile tbl s))) =
            ws_tokens content"
    by (simp add: eq ws_tokens_no_empty)
  show "concat (drop (length tbl) (snd (getLogFromFile tbl s))) =
            filter (\<lambda>c. \<not> iswspace c) content"
    by (simp add: eq concat_ws_tokens)
next
  show "\<forall>w\<in>set (ws_tokens content). w \<noteq> [] \<and> (\<forall>c\<in>set w. \<not> iswspace c)"
    using ws_tokens_sound by blast
qed

text \<open>
  Claim C10. When the file opens, the caller's vector is not cleared: its elements stay
  in front, followed by the tokens of the text, followed by one empty string exactly
  when the text is empty or ends in white space (the last extraction fails, and its
  empty string is appended all the same). So a text that ends in white space yields one
  element more than it has tokens, and the last element is the empty string. This holds
  for the file that a returning call of \<open>writeLog\<close> within the threshold has written
  with the FILE bit set: its text ends in the newline that closes the block. It holds as
  well for every file to which the dispatcher has written a buffer that ends in white
  space.
\<close>

theorem getLogFromFile_keeps_vector_and_appends_empty:
  "(files s (m_wstrLogFile s) = Regular content \<longrightarrow>
      snd (getLogFromFile tbl s) =
        tbl @ ws_tokens content @
        (if content = [] \<or> iswspace (last content) then [[]] else [])
      \<and> take (length tbl) (snd (getLogFromFile tbl s)) = tbl
      \<and> (content \<noteq> [] \<and> iswspace (last content) \<longrightarrow>
           last (snd (getLogFromFile tbl s)) = []
           \<and> length (snd (getLogFromFile tbl s)) = length tbl + length (ws_tokens content) + 1))
   \<and> (writeLog p lvl fl fn ln fmt args s = Returns s'
       \<and> LOGLEVEL_val lvl \<le> LOGLEVEL_val (m_LogLevel s)
       \<and> bit (LOGTARGET_val (m_LogTarget s)) 1
       \<and> files s (m_wstrLogFile s) \<noteq> Unopenable \<longrightarrow>
         (\<exists>written. files s' (m_wstrLogFile s') = Regular written \<and> written \<noteq> [] \<and>
            last written = of_char CHR ''\<newline>'')
         \<and> fst (getLogFromFile tbl s') = True
         \<and> last (snd (getLogFromFile tbl s')) = [])
   \<and> (bit (LOGTARGET_val (m_LogTarget s)) 1
       \<and> files s (m_wstrLogFile s) \<noteq> Unopenable
       \<and> m_wstrLogBuffer s \<noteq> []
       \<and> iswspace (last (m_wstrLogBuffer s)) \<longrightarrow>
         fst (getLogFromFile tbl (outputToTarget s)) = True
         \<and> last (snd (getLogFromFile tbl (outputToTarget s))) = [])"
proof (intro conjI impI)
  assume r: "files s (m_wstrLogFile s) = Regular content"
  note eq = getLogFromFile_opened [OF r, of tbl]
  show "snd (getLogFromFile tbl s) =
        tbl @ ws_tokens content @
        (if content = [] \<or> iswspace (last content) then [[]] else [])"
    by (simp add: eq)
  show "take (length tbl) (snd (getLogFromFile tbl s)) = tbl"
    by (simp add: eq)
  assume w: "content \<noteq> [] \<and> iswspace (last content)"
  show "last (snd (getLogFromFile tbl s)) = []"
    using w by (simp add: eq)
  show "length (snd (getLogFromFile tbl s)) = length tbl + length (ws_tokens content) + 1"
    using w by (simp add: eq)
next
  assume a: "writeLog p lvl fl fn ln fmt args s = Returns s'
       \<and> LOGLEVEL_val lvl \<le> LOGLEVEL_val (m_LogLevel s)
       \<and> bit (LOGTARGET_val (m_LogTarget s)) 1
       \<and> files s (m_wstrLogFile s) \<noteq> Unopenable"
  then obtain written where wr: "files s' (m_wstrLogFile s') = Regular written"
    "written \<noteq> []" "last written = of_char CHR ''\<newline>''"
    using written_file_ends_with_newline by blast
  then show "\<exists>written. files s' (m_wstrLogFile s') = Regular written \<and> written \<noteq> [] \<and>
            last written = of_char CHR ''\<newline>''"
    by blast
  note eq = getLogFromFile_opened [OF wr(1), of tbl]
  show "fst (getLogFromFile tbl s') = True" by (simp add: eq)
  show "last (snd (getLogFromFile tbl s')) = []"
    using wr(2,3) iswspace_newline by (simp add: eq)
next
  assume a: "bit (LOGTARGET_val (m_LogTarget s)) 1
       \<and> files s (m_wstrLogFile s) \<noteq> Unopenable
       \<and> m_wstrLogBuffer s \<noteq> []
       \<and> iswspace (last (m_wstrLogBuffer s))"
  then obtain written
    where wr: "files (outputToTarget s) (m_wstrLogFile (outputToTarget s)) = Regular written"
      "written \<noteq> []" "iswspace (last written)"
    using outputToTarget_file_ends_with_space by blast
  note eq = getLogFromFile_opened [OF wr(1), of tbl]
  show "fst (getLogFromFile tbl (outputToTarget s)) = True" by (simp add: eq)
  show "last (snd (getLogFromFile tbl (outputToTarget s))) = []"
    using wr(2,3) by (simp add: eq)
qed

subsection \<open>A sample log file\<close>

lemma ws_tokens_example: "ws_tokens (L ''ab  cd\<newline>'') = [L ''ab'', L ''cd'']"
  by code_simp

lemma iswspace_last_example: "iswspace (last (L ''ab  cd\<newline>''))"
  by (simp add: L_def iswspace_def)

lemma sample_file:
  "files (initial_state [] ((\<lambda>q. No_file)(L ''./Log.txt'' := Regular (L ''ab  cd\<newline>''))) ''C'') (m_wstrLogFile (initial_state [] ((\<lambda>q. No_file)(L ''./Log.txt'' := Regular (L ''ab  cd\<newline>''))) ''C'')) = Regular (L ''ab  cd\<newline>'')"
  by (simp add: initial_state_fields)

theorem getLogFromFile_reads_tokens_witness:
  "files (initial_state [] (\<lambda>q. No_file) ''C'') (m_wstrLogFile (initial_state [] (\<lambda>q. No_file) ''C'')) = No_file
   \<and> getLogFromFile [L ''x''] (initial_state [] (\<lambda>q. No_file) ''C'') = (False, [L ''x''])
   \<and> files (initial_state [] ((\<lambda>q. No_file)(L ''./Log.txt'' := Regular (L ''ab  cd\<newline>''))) ''C'') (m_wstrLogFile (initial_state [] ((\<lambda>q. No_file)(L ''./Log.txt'' := Regular (L ''ab  cd\<newline>''))) ''C'')) = Regular (L ''ab  cd\<newline>'')
   \<and> fst (getLogFromFile [L ''x''] (initial_state [] ((\<lambda>q. No_file)(L ''./Log.txt'' := Regular (L ''ab  cd\<newline>''))) ''C'')) = True
   \<and> filter (\<lambda>w. w \<noteq> []) (drop (length [L ''x''])
         (snd (getLogFromFile [L ''x''] (initial_state [] ((\<lambda>q. No_file)(L ''./Log.txt'' := Regular (L ''ab  cd\<newline>''))) ''C'')))) = [L ''ab'', L ''cd'']
   \<and> list_all (\<lambda>w. w \<noteq> [] \<and> list_all (\<lambda>c. \<not> iswspace c) w) [L ''ab'', L ''cd'']"
proof -
  define ini where "ini = initial_state [] (\<lambda>q. No_file) ''C''"
  define str where "str = initial_state []
      ((\<lambda>q. No_file)(L ''./Log.txt'' := Regular (L ''ab  cd\<newline>''))) ''C''"
  have 1: "files ini (m_wstrLogFile ini) = No_file"
    by (simp add: ini_def initial_state_fields)
  then have 2: "getLogFromFile [L ''x''] ini = (False, [L ''x''])"
    using getLogFromFile_reads_tokens [where s = ini and tbl = "[L ''x'']", THEN conjunct1] by blast
  have 3: "files str (m_wstrLogFile str) = Regular (L ''ab  cd\<newline>'')"
    unfolding str_def by (rule sample_file)
  note opened = getLogFromFile_reads_tokens [where s = str and tbl = "[L ''x'']"
      and content = "L ''ab  cd\<newline>''", THEN conjunct2, THEN mp, OF 3]
  have 4: "fst (getLogFromFile [L ''x''] str) = True"
    using opened by (rule conjunct1)
  have 5: "filter (\<lambda>w. w \<noteq> []) (drop (length [L ''x''])
         (snd (getLogFromFile [L ''x''] str))) = [L ''ab'', L ''cd'']"
    using opened [THEN conjunct2, THEN conjunct2, THEN conjunct1]
    by (simp only: ws_tokens_example)
  have 6: "list_all (\<lambda>w. w \<noteq> [] \<and> list_all (\<lambda>c. \<not> iswspace c) w) [L ''ab'', L ''cd'']"
    using opened [THEN conjunct2, THEN conjunct2, THEN conjunct2, THEN conjunct1]
    by (simp only: ws_tokens_example list_all_iff)
  from 1 2 3 4 5 6 show ?thesis unfolding ini_def str_def by (intro conjI)
qed

theorem getLogFromFile_keeps_vector_and_appends_empty_witness:
  "files (initial_state [] ((\<lambda>q. No_file)(L ''./Log.txt'' := Regular (L ''ab  cd\<newline>''))) ''C'') (m_wstrLogFile (initial_state [] ((\<lambda>q. No_file)(L ''./Log.txt'' := Regular (L ''ab  cd\<newline>''))) ''C'')) = Regular (L ''ab  cd\<newline>'')
   \<and> snd (getLogFromFile [L ''x''] (initial_state [] ((\<lambda>q. No_file)(L ''./Log.txt'' := Regular (L ''ab  cd\<newline>''))) ''C'')) = [L ''x'', L ''ab'', L ''cd'', []]
   \<and> last (snd (getLogFromFile [L ''x''] (initial_state [] ((\<lambda>q. No_file)(L ''./Log.txt'' := Regular (L ''ab  cd\<newline>''))) ''C''))) = []
   \<and> writeLog (ascii_platform date_2023_02_09 1234 42) LOG_LEVEL_NONE (L ''main.cpp'') (L ''main'') 7 ''disk full'' [] (Init LOG_LEVEL_WARNING LOG_TARGET_FILE (L ''./t.log'') (initial_state [] (\<lambda>q. No_file) ''C''))
       = Throws out_of_range ((Init LOG_LEVEL_WARNING LOG_TARGET_FILE (L ''./t.log'') (initial_state [] (\<lambda>q. No_file) ''C''))\<lparr>m_wstrLogBuffer := L ''\<newline>'' @ replicate 60 (of_char CHR ''*'') @ L '' ''\<rparr>)
   \<and> iswspace (last (m_wstrLogBuffer ((Init LOG_LEVEL_WARNING LOG_TARGET_FILE (L ''./t.log'') (initial_state [] (\<lambda>q. No_file) ''C''))\<lparr>m_wstrLogBuffer := L ''\<newline>'' @ replicate 60 (of_char CHR ''*'') @ L '' ''\<rparr>)))
   \<and> fst (getLogFromFile [] (outputToTarget ((Init LOG_LEVEL_WARNING LOG_TARGET_FILE (L ''./t.log'') (initial_state [] (\<lambda>q. No_file) ''C''))\<lparr>m_wstrLogBuffer := L ''\<newline>'' @ replicate 60 (of_char CHR ''*'') @ L '' ''\<rparr>))) = True
   \<and> last (snd (getLogFromFile [] (outputToTarget ((Init LOG_LEVEL_WARNING LOG_TARGET_FILE (L ''./t.log'') (initial_state [] (\<lambda>q. No_file) ''C''))\<lparr>m_wstrLogBuffer := L ''\<newline>'' @ replicate 60 (of_char CHR ''*'') @ L '' ''\<rparr>)))) = []"
proof -
  define str where "str = initial_state []
      ((\<lambda>q. No_file)(L ''./Log.txt'' := Regular (L ''ab  cd\<newline>''))) ''C''"
  define ini where "ini = initial_state [] (\<lambda>q. No_file) ''C''"
  define stf where "stf = Init LOG_LEVEL_WARNING LOG_TARGET_FILE (L ''./t.log'') ini"
  define P where "P = ascii_platform date_2023_02_09 1234 42"
  define X where "X = stf\<lparr>m_wstrLogBuffer :=
      L ''\<newline>'' @ replicate 60 (of_char CHR ''*'') @ L '' ''\<rparr>"
  have 1: "files str (m_wstrLogFile str) = Regular (L ''ab  cd\<newline>'')"
    unfolding str_def by (rule sample_file)
  note opened = getLogFromFile_keeps_vector_and_appends_empty
      [where s = str and tbl = "[L ''x'']" and content = "L ''ab  cd\<newline>''",
       THEN conjunct1, THEN mp, OF 1]
  have 2: "snd (getLogFromFile [L ''x''] str) = [L ''x'', L ''ab'', L ''cd'', []]"
    using opened [THEN conjunct1] iswspace_last_example
    by (simp add: ws_tokens_example)
  have ne: "L ''ab  cd\<newline>'' \<noteq> []"
    by (simp add: L_def)
  have 3: "last (snd (getLogFromFile [L ''x''] str)) = []"
    using opened [THEN conjunct2, THEN conjunct2] ne iswspace_last_example by blast
  have 4: "writeLog P LOG_LEVEL_NONE (L ''main.cpp'') (L ''main'') 7 ''disk full'' [] stf
      = Throws out_of_range X"
    unfolding X_def by (rule writeLog_NONE) simp
  have b: "bit (LOGTARGET_val (m_LogTarget X)) 1"
    using target_and_FILE_bit [of LOG_TARGET_FILE]
    by (simp add: X_def stf_def Init_fields target_and_def)
  have o: "files X (m_wstrLogFile X) \<noteq> Unopenable"
    by (simp add: X_def stf_def ini_def Init_fields initial_state_fields)
  have n: "m_wstrLogBuffer X \<noteq> []"
    by (simp add: X_def L_def)
  have 5: "iswspace (last (m_wstrLogBuffer X))"
    by (simp add: X_def L_def iswspace_def)
  note dispatched = getLogFromFile_keeps_vector_and_appends_empty
      [where s = X and tbl = "[]",
       THEN conjunct2, THEN conjunct2, THEN mp, OF conjI [OF b conjI [OF o conjI [OF n 5]]]]
  have 6: "fst (getLogFromFile [] (outputToTarget X)) = True"
    using dispatched by (rule conjunct1)
  have 7: "last (snd (getLogFromFile [] (outputToTarget X))) = []"
    using dispatched by (rule conjunct2)
  from 1 2 3 4 5 6 7 show ?thesis
    unfolding X_def stf_def P_def ini_def str_def by (intro conjI)
qed

subsection \<open>The scenario of one INFO message written to a file\<close>

lemma hello_Format_overrun:
  "length (StrToWStr p ''hello %d'') = 8 \<Longrightarrow> sizeof_pointer p \<le> 8 \<Longrightarrow>
   \<not> StrToWStr_fits p ''hello %d'' (sizeof_pointer p)"
  by (simp add: StrToWStr_fits_def)

lemma hello_expansion:
  "vswprintf (ascii_platform date_2023_02_09 1234 42) 256 (L ''hello %d'') [Arg_int 5] = Some (L ''hello 5'')"
  by (simp add: ascii_platform_def L_def wdec_def dec_int_def dec_nat.simps)

text \<open>
  Claim C5 does not hold of the code. In the scenario (threshold INFO, target FILE, path
  \<open>./t.log\<close>, one call at level INFO with format \<open>hello %d\<close> and argument 5) on
  the sample platform, the timestamp has 19 characters and \<open>StrToWStr\<close> writes 20
  elements into \<open>wTimeBuffer\<close>, which has 19; the format has 8 characters and
  \<open>StrToWStr\<close> writes 9 elements into \<open>Format\<close>, which has \<open>sizeof _Format = 8\<close>.
  The behaviour of the call is undefined, although \<open>vswprintf\<close> would expand the
  format to \<open>hello 5\<close>.
\<close>

theorem writeLog_hello_5_undefined:
  "LOGLEVEL_val LOG_LEVEL_INFO \<le> LOGLEVEL_val (m_LogLevel (Init LOG_LEVEL_INFO LOG_TARGET_FILE (L ''./t.log'') (initial_state [] (\<lambda>q. No_file) ''C'')))
   \<and> m_LogTarget (Init LOG_LEVEL_INFO LOG_TARGET_FILE (L ''./t.log'') (initial_state [] (\<lambda>q. No_file) ''C'')) = LOG_TARGET_FILE
   \<and> m_wstrLogFile (Init LOG_LEVEL_INFO LOG_TARGET_FILE (L ''./t.log'') (initial_state [] (\<lambda>q. No_file) ''C'')) = L ''./t.log''
   \<and> length (getCurrentLocalTime (localtime_now (ascii_platform date_2023_02_09 1234 42))) = 19
   \<and> length (StrToWStr (ascii_platform date_2023_02_09 1234 42) (getCurrentLocalTime (localtime_now (ascii_platform date_2023_02_09 1234 42)))) + 1 = 20
   \<and> \<not> StrToWStr_fits (ascii_platform date_2023_02_09 1234 42) (getCurrentLocalTime (localtime_now (ascii_platform date_2023_02_09 1234 42))) (length (getCurrentLocalTime (localtime_now (ascii_platform date_2023_02_09 1234 42))))
   \<and> sizeof_pointer (ascii_platform date_2023_02_09 1234 42) = 8
   \<and> length (StrToWStr (ascii_platform date_2023_02_09 1234 42) ''hello %d'') + 1 = 9
   \<and> \<not> StrToWStr_fits (ascii_platform date_2023_02_09 1234 42) ''hello %d'' (sizeof_pointer (ascii_platform date_2023_02_09 1234 42))
   \<and> vswprintf (ascii_platform date_2023_02_09 1234 42) 256 (StrToWStr (ascii_platform date_2023_02_09 1234 42) ''hello %d'') [Arg_int 5] = Some (L ''hello 5'')
   \<and> writeLog (ascii_platform date_2023_02_09 1234 42) LOG_LEVEL_INFO (L ''main.cpp'') (L ''main'') 7 ''hello %d'' [Arg_int 5]
       (Init LOG_LEVEL_INFO LOG_TARGET_FILE (L ''./t.log'') (initial_state [] (\<lambda>q. No_file) ''C'')) = Undefined"
proof -
  define st where "st = Init LOG_LEVEL_INFO LOG_TARGET_FILE (L ''./t.log'')
      (initial_state [] (\<lambda>q. No_file) ''C'')"
  define P where "P = ascii_platform date_2023_02_09 1234 42"
  have ts: "getCurrentLocalTime (localtime_now P) = ''2023-02-09 12:34:56''"
    by (simp add: P_def ascii_platform_def timestamp_example)
  have conv: "StrToWStr P = L" and sz: "sizeof_pointer P = 8"
    by (simp_all add: P_def ascii_platform_def)
  have 1: "LOGLEVEL_val LOG_LEVEL_INFO \<le> LOGLEVEL_val (m_LogLevel st)"
    and 2: "m_LogTarget st = LOG_TARGET_FILE"
    and 3: "m_wstrLogFile st = L ''./t.log''"
    by (simp_all add: st_def Init_fields)
  have 4: "length (getCurrentLocalTime (localtime_now P)) = 19"
    by (simp add: ts)
  have 5: "length (StrToWStr P (getCurrentLocalTime (localtime_now P))) + 1 = 20"
    by (simp add: ts conv L_def)
  have 6: "\<not> StrToWStr_fits P (getCurrentLocalTime (localtime_now P))
      (length (getCurrentLocalTime (localtime_now P)))"
    by (rule wTimeBuffer_one_short) (simp add: conv L_def)
  have 8: "length (StrToWStr P ''hello %d'') + 1 = 9"
    by (simp add: conv L_def)
  have 9: "\<not> StrToWStr_fits P ''hello %d'' (sizeof_pointer P)"
    by (rule hello_Format_overrun) (simp_all add: conv L_def sz)
  have 10: "vswprintf P 256 (StrToWStr P ''hello %d'') [Arg_int 5] = Some (L ''hello 5'')"
    using hello_expansion by (simp add: P_def ascii_platform_def)
  have n: "LOGLEVEL_WSTRING LOG_LEVEL_INFO = Some (L ''INFO'')"
    by simp
  have 11: "writeLog P LOG_LEVEL_INFO (L ''main.cpp'') (L ''main'') 7 ''hello %d'' [Arg_int 5]
      st = Undefined"
    using 1 n 6 by (rule writeLog_wTimeBuffer_overrun)
  from 1 2 3 4 5 6 sz 8 9 10 11 show ?thesis
    unfolding st_def P_def by (intro conjI)
qed

end
